theory Spec2Isabelle
  imports Complex_Main
begin

section \<open>Data model (models.py)\<close>

text \<open>
  Python floats are modelled as \<^typ>\<open>real\<close>: the comparisons and the arithmetic of the
  source are kept as written, rounding and NaN are not modelled. A float division by
  zero raises \<open>ZeroDivisionError\<close> in Python; the model returns that error.
\<close>

datatype ExitReason = STOP_LOSS | TAKE_PROFIT | TRAILING_STOP | MANUAL | SIGNAL

datatype PositionStatus = ACTIVE | TRAILING | CLOSED

datatype Action = LONG | SHORT | EXIT_LONG | EXIT_SHORT | CLOSE_ALL

text \<open>
  A naive \<open>datetime\<close> is a point on the microsecond grid; it is represented by its
  number of microseconds since the first representable instant.
\<close>

type_synonym datetime = nat

datatype error =
    ZeroDivisionError
  | KeyError string
  | ValueError
  | TypeError
  | AttributeError
  | GatewayError
  | HTTPException nat

datatype 'a result = Ok 'a | Raised error

text \<open>
  The dataclass \<open>Position\<close>. The field \<open>size\<close> of the source is \<open>size_base\<close> here
  (\<open>size\<close> is a constant of HOL). \<open>side\<close> is a plain string in the source: every
  method takes the LONG branch on \<open>''LONG''\<close> and the SHORT branch on anything else.
\<close>

record Position =
  position_id :: string
  product_id :: string
  side :: string
  size_base :: real
  entry_price :: real
  current_price :: real
  stop_loss_price :: real
  take_profit_price :: real
  trailing_activation_price :: real
  trailing_distance_pct :: real
  status :: PositionStatus
  trailing_active :: bool
  trailing_stop_price :: real
  opened_at :: datetime
  closed_at :: "datetime option"
  exit_reason :: "ExitReason option"
  pnl :: real
  pnl_pct :: real

text \<open>
  \<open>Position.update_pnl\<close> mutates \<open>self\<close>: the model returns the object after the call
  and how the call ended. \<open>pnl\<close> is assigned before the division that may raise.
\<close>

definition update_pnl :: "Position \<Rightarrow> Position \<times> unit result" where
  "update_pnl self =
     (if side self = ''LONG'' then
        (let self1 = self\<lparr>pnl := (current_price self - entry_price self) * size_base self\<rparr>
         in if entry_price self1 = 0 then (self1, Raised ZeroDivisionError)
            else (self1\<lparr>pnl_pct :=
                    ((current_price self1 - entry_price self1) / entry_price self1) * 100\<rparr>,
                  Ok ()))
      else
        (let self1 = self\<lparr>pnl := (entry_price self - current_price self) * size_base self\<rparr>
         in if entry_price self1 = 0 then (self1, Raised ZeroDivisionError)
            else (self1\<lparr>pnl_pct :=
                    ((entry_price self1 - current_price self1) / entry_price self1) * 100\<rparr>,
                  Ok ())))"

definition should_stop_loss :: "Position \<Rightarrow> bool" where
  "should_stop_loss self =
     (if side self = ''LONG'' then current_price self \<le> stop_loss_price self
      else current_price self \<ge> stop_loss_price self)"

definition should_take_profit :: "Position \<Rightarrow> bool" where
  "should_take_profit self =
     (if side self = ''LONG'' then current_price self \<ge> take_profit_price self
      else current_price self \<le> take_profit_price self)"

definition should_activate_trailing :: "Position \<Rightarrow> bool" where
  "should_activate_trailing self =
     (if trailing_active self then False
      else if side self = ''LONG'' then current_price self \<ge> trailing_activation_price self
      else current_price self \<le> trailing_activation_price self)"

definition update_trailing_stop :: "Position \<Rightarrow> Position" where
  "update_trailing_stop self =
     (if \<not> trailing_active self then self
      else if side self = ''LONG'' then
        (let new_stop = current_price self * (1 - trailing_distance_pct self / 100)
         in if new_stop > trailing_stop_price self
            then self\<lparr>trailing_stop_price := new_stop\<rparr> else self)
      else
        (let new_stop = current_price self * (1 + trailing_distance_pct self / 100)
         in if new_stop < trailing_stop_price self \<or> trailing_stop_price self = 0
            then self\<lparr>trailing_stop_price := new_stop\<rparr> else self))"

definition should_trailing_stop :: "Position \<Rightarrow> bool" where
  "should_trailing_stop self =
     (if \<not> trailing_active self then False
      else if side self = ''LONG'' then current_price self \<le> trailing_stop_price self
      else current_price self \<ge> trailing_stop_price self)"


section \<open>The world outside the process (config.py, coinbase_client.py, the file system)\<close>

text \<open>
  Calls of the exchange client. The list \<open>gateway_calls\<close> of the state records every call
  made, in order; the answers of the exchange are oracles of the environment that may
  depend on the calls made so far.
\<close>

datatype gateway_call =
    PlaceMarketOrder string string real
  | ClosePosition string string real
  | GetCurrentPrice string
  | SubscribeTrades "string list"

text \<open>
  \<open>ENABLE_TRADING\<close> and \<open>MAX_CONCURRENT_POSITIONS\<close> are the attributes of \<open>Config\<close>.
  \<open>gateway_raises\<close> tells whether \<open>place_market_order\<close>, \<open>close_position\<close> or
  \<open>subscribe_trades\<close> raises (all three log and re-raise); \<open>quoted_price\<close> is the result of
  \<open>get_current_price\<close>, which never raises (it returns 0.0 on failure).
  \<open>file_writable\<close> tells whether opening \<open>POSITIONS_FILE\<close> for writing succeeds.
  \<open>utcnow\<close> and \<open>uuid4\<close> are read at the state's \<open>clock\<close>, which counts the reads.
  \<open>isoformat\<close> and \<open>fromisoformat\<close> are the methods of \<open>datetime\<close>; \<open>None\<close> stands for
  the \<open>ValueError\<close> of \<open>fromisoformat\<close>.
\<close>

record env =
  ENABLE_TRADING :: bool
  MAX_CONCURRENT_POSITIONS :: int
  gateway_raises :: "gateway_call list \<Rightarrow> gateway_call \<Rightarrow> error option"
  quoted_price :: "gateway_call list \<Rightarrow> string \<Rightarrow> real"
  file_writable :: bool
  utcnow :: "nat \<Rightarrow> datetime"
  uuid4 :: "nat \<Rightarrow> string"
  isoformat :: "datetime \<Rightarrow> string"
  fromisoformat :: "string \<Rightarrow> datetime option"

text \<open>
  The content of \<open>POSITIONS_FILE\<close> as \<open>_load_positions\<close> sees it. One entry of the loaded
  mapping is a JSON object whose keys may be missing (\<open>None\<close>), or a JSON value that is
  not an object. A present key carries a value of the JSON type that \<open>_save_positions\<close>
  writes for it; the dataclass constructor checks no types, so a value of another JSON
  type would be stored as it is: such files are outside this model.
\<close>

record pos_data =
  d_position_id :: "string option"
  d_product_id :: "string option"
  d_side :: "string option"
  d_size :: "real option"
  d_entry_price :: "real option"
  d_current_price :: "real option"
  d_stop_loss_price :: "real option"
  d_take_profit_price :: "real option"
  d_trailing_activation_price :: "real option"
  d_trailing_distance_pct :: "real option"
  d_status :: "string option"
  d_trailing_active :: "bool option"
  d_trailing_stop_price :: "real option"
  d_opened_at :: "string option"
  d_pnl :: "real option"
  d_pnl_pct :: "real option"

datatype entry = NotAnObject | Object pos_data

text \<open>
  \<open>NoFile\<close>: \<open>open\<close> raises \<open>FileNotFoundError\<close>. \<open>Unreadable\<close>: \<open>open\<close> or \<open>read\<close> raises
  another error. \<open>NotJSON\<close>: \<open>json.load\<close> raises. \<open>NotAMapping\<close>: the JSON value has no
  \<open>items\<close>. \<open>Mapping\<close>: a JSON object, its members in file order.
\<close>

datatype file_content =
    NoFile
  | Unreadable
  | NotJSON
  | NotAMapping
  | Mapping "(string \<times> entry) list"

text \<open>
  Position objects are mutable and shared between the manager's dict and the callers,
  so they live in a store: \<open>heap\<close> maps a reference to the object's current fields,
  \<open>next_ref\<close> is the next unused reference. \<open>positions\<close> is \<open>PositionManager.positions\<close>,
  a dict in insertion order from identifier to object reference.
\<close>

type_synonym ref = nat

record state =
  heap :: "ref \<Rightarrow> Position"
  next_ref :: ref
  positions :: "(string \<times> ref) list"
  positions_file :: file_content
  gateway_calls :: "gateway_call list"
  clock :: nat

subsection \<open>Python dict operations\<close>

primrec dict_set :: "'k \<Rightarrow> 'v \<Rightarrow> ('k \<times> 'v) list \<Rightarrow> ('k \<times> 'v) list" where
  "dict_set k v [] = [(k, v)]"
| "dict_set k v (e # es) = (if fst e = k then (k, v) # es else e # dict_set k v es)"

primrec dict_get :: "('k \<times> 'v) list \<Rightarrow> 'k \<Rightarrow> 'v option" where
  "dict_get [] k = None"
| "dict_get (e # es) k = (if fst e = k then Some (snd e) else dict_get es k)"

primrec dict_pop :: "'k \<Rightarrow> ('k \<times> 'v) list \<Rightarrow> ('k \<times> 'v) list" where
  "dict_pop k [] = []"
| "dict_pop k (e # es) = (if fst e = k then es else e # dict_pop k es)"

definition new_object :: "Position \<Rightarrow> state \<Rightarrow> ref \<times> state" where
  "new_object p s =
     (next_ref s, s\<lparr>heap := (heap s)(next_ref s := p), next_ref := Suc (next_ref s)\<rparr>)"

section \<open>Persistence (position\_manager.py)\<close>

definition status_value :: "PositionStatus \<Rightarrow> string" where
  "status_value st = (case st of ACTIVE \<Rightarrow> ''ACTIVE'' | TRAILING \<Rightarrow> ''TRAILING''
                      | CLOSED \<Rightarrow> ''CLOSED'')"

definition PositionStatus_of :: "string \<Rightarrow> PositionStatus result" where
  "PositionStatus_of v =
     (if v = ''ACTIVE'' then Ok ACTIVE
      else if v = ''TRAILING'' then Ok TRAILING
      else if v = ''CLOSED'' then Ok CLOSED
      else Raised ValueError)"

text \<open>The dict comprehension of \<open>_save_positions\<close> for one position.\<close>

definition save_entry :: "env \<Rightarrow> Position \<Rightarrow> pos_data" where
  "save_entry cfg pos =
     \<lparr>d_position_id = Some (position_id pos),
      d_product_id = Some (product_id pos),
      d_side = Some (side pos),
      d_size = Some (size_base pos),
      d_entry_price = Some (entry_price pos),
      d_current_price = Some (current_price pos),
      d_stop_loss_price = Some (stop_loss_price pos),
      d_take_profit_price = Some (take_profit_price pos),
      d_trailing_activation_price = Some (trailing_activation_price pos),
      d_trailing_distance_pct = Some (trailing_distance_pct pos),
      d_status = Some (status_value (status pos)),
      d_trailing_active = Some (trailing_active pos),
      d_trailing_stop_price = Some (trailing_stop_price pos),
      d_opened_at = Some (isoformat cfg (opened_at pos)),
      d_pnl = Some (pnl pos),
      d_pnl_pct = Some (pnl_pct pos)\<rparr>"

text \<open>
  \<open>_save_positions\<close>: every exception is caught and logged, so the call always returns;
  when the file cannot be opened for writing its content stays as it was.
\<close>

definition save_positions :: "env \<Rightarrow> state \<Rightarrow> state" where
  "save_positions cfg s =
     (let data = map (\<lambda>(key, pos). (key, Object (save_entry cfg (heap s pos))))
                     (positions s)
      in if file_writable cfg then s\<lparr>positions_file := Mapping data\<rparr> else s)"

text \<open>\<open>pos_data[key]\<close>, followed by the rest of the constructor call.\<close>

definition item :: "string \<Rightarrow> 'a option \<Rightarrow> ('a \<Rightarrow> 'b result) \<Rightarrow> 'b result" where
  "item key v k = (case v of None \<Rightarrow> Raised (KeyError key) | Some x \<Rightarrow> k x)"

text \<open>
  The constructor call of \<open>_load_positions\<close>: the keyword arguments are evaluated in the
  order written; \<open>closed_at\<close> and \<open>exit_reason\<close> are not passed and take their defaults.
\<close>

definition load_entry :: "env \<Rightarrow> entry \<Rightarrow> Position result" where
  "load_entry cfg e =
     (case e of
        NotAnObject \<Rightarrow> Raised TypeError
      | Object d \<Rightarrow>
          item ''position_id'' (d_position_id d) (\<lambda>v1.
          item ''product_id'' (d_product_id d) (\<lambda>v2.
          item ''side'' (d_side d) (\<lambda>v3.
          item ''size'' (d_size d) (\<lambda>v4.
          item ''entry_price'' (d_entry_price d) (\<lambda>v5.
          item ''current_price'' (d_current_price d) (\<lambda>v6.
          item ''stop_loss_price'' (d_stop_loss_price d) (\<lambda>v7.
          item ''take_profit_price'' (d_take_profit_price d) (\<lambda>v8.
          item ''trailing_activation_price'' (d_trailing_activation_price d) (\<lambda>v9.
          item ''trailing_distance_pct'' (d_trailing_distance_pct d) (\<lambda>v10.
          item ''status'' (d_status d) (\<lambda>v11.
          case PositionStatus_of v11 of Raised err \<Rightarrow> Raised err | Ok st \<Rightarrow>
          item ''trailing_active'' (d_trailing_active d) (\<lambda>v12.
          item ''trailing_stop_price'' (d_trailing_stop_price d) (\<lambda>v13.
          item ''opened_at'' (d_opened_at d) (\<lambda>v14.
          case fromisoformat cfg v14 of None \<Rightarrow> Raised ValueError | Some t \<Rightarrow>
          item ''pnl'' (d_pnl d) (\<lambda>v15.
          item ''pnl_pct'' (d_pnl_pct d) (\<lambda>v16.
          Ok \<lparr>position_id = v1, product_id = v2, side = v3, size_base = v4,
              entry_price = v5, current_price = v6, stop_loss_price = v7,
              take_profit_price = v8, trailing_activation_price = v9,
              trailing_distance_pct = v10, status = st, trailing_active = v12,
              trailing_stop_price = v13, opened_at = t, closed_at = None,
              exit_reason = None, pnl = v15, pnl_pct = v16\<rparr>)))))))))))))))))"

text \<open>
  The \<open>for\<close> loop of \<open>_load_positions\<close>: each position is stored in the dict as soon as
  it is built, and the first entry that raises ends the loop.
\<close>

fun load_entries :: "env \<Rightarrow> (string \<times> entry) list \<Rightarrow> state \<Rightarrow> state \<times> unit result" where
  "load_entries cfg [] s = (s, Ok ())"
| "load_entries cfg ((key, pos_dat) # rest) s =
     (case load_entry cfg pos_dat of
        Raised err \<Rightarrow> (s, Raised err)
      | Ok p \<Rightarrow>
          (let (position, s1) = new_object p s
           in load_entries cfg rest
                (s1\<lparr>positions := dict_set key position (positions s1)\<rparr>)))"

datatype load_outcome = Loaded | StartingFresh | FailedToLoad

text \<open>
  \<open>_load_positions\<close> returns nothing and raises nothing: both \<open>except\<close> clauses only log.
  The model also returns which of the three ways the call ended.
\<close>

definition load_positions :: "env \<Rightarrow> state \<Rightarrow> state \<times> load_outcome" where
  "load_positions cfg s =
     (case positions_file s of
        NoFile \<Rightarrow> (s, StartingFresh)
      | Unreadable \<Rightarrow> (s, FailedToLoad)
      | NotJSON \<Rightarrow> (s, FailedToLoad)
      | NotAMapping \<Rightarrow> (s, FailedToLoad)
      | Mapping data \<Rightarrow>
          (case load_entries cfg data s of
             (s1, Raised err) \<Rightarrow> (s1, FailedToLoad)
           | (s1, Ok u) \<Rightarrow> (s1, Loaded)))"

text \<open>\<open>PositionManager.__init__\<close>: an empty dict, then the persisted positions.\<close>

definition init_manager :: "env \<Rightarrow> state \<Rightarrow> state \<times> load_outcome" where
  "init_manager cfg s = load_positions cfg (s\<lparr>positions := []\<rparr>)"


section \<open>The position manager (position\_manager.py)\<close>

text \<open>
  \<open>add_position\<close>: a plain item assignment on the dict, then a save.
\<close>

definition add_position :: "env \<Rightarrow> ref \<Rightarrow> state \<Rightarrow> state" where
  "add_position cfg position s =
     save_positions cfg
       (s\<lparr>positions := dict_set (position_id (heap s position)) position (positions s)\<rparr>)"

definition get_position :: "string \<Rightarrow> state \<Rightarrow> ref option" where
  "get_position pid s = dict_get (positions s) pid"

text \<open>\<open>remove_position\<close>: \<open>pop\<close> with default \<open>None\<close>; the save happens only on a hit.\<close>

definition remove_position :: "env \<Rightarrow> string \<Rightarrow> state \<Rightarrow> state \<times> ref option" where
  "remove_position cfg pid s =
     (case dict_get (positions s) pid of
        None \<Rightarrow> (s, None)
      | Some position \<Rightarrow>
          (save_positions cfg (s\<lparr>positions := dict_pop pid (positions s)\<rparr>), Some position))"

definition get_all_positions :: "state \<Rightarrow> ref list" where
  "get_all_positions s = map snd (positions s)"

text \<open>
  \<open>get_active_products\<close> goes through a Python set, whose order is not specified; the
  model keeps the first occurrence of each product.
\<close>

definition get_active_products :: "state \<Rightarrow> string list" where
  "get_active_products s = remdups (map (\<lambda>pos. product_id (heap s pos)) (get_all_positions s))"

text \<open>
  A call of the exchange client that raises on failure: the call is recorded, and the
  oracle of the environment decides how it ends.
\<close>

definition gateway :: "env \<Rightarrow> gateway_call \<Rightarrow> state \<Rightarrow> state \<times> unit result" where
  "gateway cfg call s =
     (s\<lparr>gateway_calls := gateway_calls s @ [call]\<rparr>,
      case gateway_raises cfg (gateway_calls s) call of
        None \<Rightarrow> Ok () | Some err \<Rightarrow> Raised err)"

definition get_current_price :: "env \<Rightarrow> string \<Rightarrow> state \<Rightarrow> state \<times> real" where
  "get_current_price cfg product s =
     (s\<lparr>gateway_calls := gateway_calls s @ [GetCurrentPrice product]\<rparr>,
      quoted_price cfg (gateway_calls s) product)"

text \<open>
  The three assignments that mark a position closed; \<open>datetime.utcnow()\<close> reads the clock.
\<close>

definition mark_closed :: "env \<Rightarrow> ref \<Rightarrow> ExitReason \<Rightarrow> state \<Rightarrow> state" where
  "mark_closed cfg position reason s =
     s\<lparr>heap := (heap s)(position := (heap s position)
            \<lparr>status := CLOSED, exit_reason := Some reason,
             closed_at := Some (utcnow cfg (clock s))\<rparr>),
       clock := Suc (clock s)\<rparr>"

text \<open>
  \<open>_close_position\<close>. In paper mode the position is marked and removed without any call
  of the client. In live mode an exception of \<open>client.close_position\<close> is logged and
  raised again before anything is marked or removed.
\<close>

definition close_position :: "env \<Rightarrow> ref \<Rightarrow> ExitReason \<Rightarrow> state \<Rightarrow> state \<times> unit result" where
  "close_position cfg position reason s =
     (if \<not> ENABLE_TRADING cfg then
        (let s1 = mark_closed cfg position reason s;
             (s2, removed) = remove_position cfg (position_id (heap s1 position)) s1
         in (s2, Ok ()))
      else
        (let p = heap s position;
             (s1, order) = gateway cfg (ClosePosition (product_id p) (side p) (size_base p)) s
         in case order of
              Raised err \<Rightarrow> (s1, Raised err)
            | Ok u \<Rightarrow>
                (let s2 = mark_closed cfg position reason s1;
                     (s3, removed) = remove_position cfg (position_id (heap s2 position)) s2
                 in (s3, Ok ()))))"

definition close_position_manual :: "env \<Rightarrow> string \<Rightarrow> state \<Rightarrow> state \<times> bool result" where
  "close_position_manual cfg pid s =
     (case get_position pid s of
        None \<Rightarrow> (s, Ok False)
      | Some position \<Rightarrow>
          (case close_position cfg position MANUAL s of
             (s1, Raised err) \<Rightarrow> (s1, Raised err)
           | (s1, Ok u) \<Rightarrow> (s1, Ok True)))"

fun close_all_loop :: "env \<Rightarrow> string list \<Rightarrow> state \<Rightarrow> state \<times> unit result" where
  "close_all_loop cfg [] s = (s, Ok ())"
| "close_all_loop cfg (pid # pids) s =
     (case close_position_manual cfg pid s of
        (s1, Raised err) \<Rightarrow> (s1, Raised err)
      | (s1, Ok b) \<Rightarrow> close_all_loop cfg pids s1)"

definition close_all_positions :: "env \<Rightarrow> state \<Rightarrow> state \<times> unit result" where
  "close_all_positions cfg s = close_all_loop cfg (map fst (positions s)) s"

text \<open>\<open>_on_price_update\<close>: every position of the traded product gets the trade's price.\<close>

fun on_price_update_loop :: "string \<Rightarrow> real \<Rightarrow> ref list \<Rightarrow> state \<Rightarrow> state" where
  "on_price_update_loop product price [] s = s"
| "on_price_update_loop product price (position # rest) s =
     on_price_update_loop product price rest
       (if product_id (heap s position) = product
        then s\<lparr>heap := (heap s)(position := (heap s position)\<lparr>current_price := price\<rparr>)\<rparr>
        else s)"

definition on_price_update :: "string \<Rightarrow> real \<Rightarrow> state \<Rightarrow> state" where
  "on_price_update product price s = on_price_update_loop product price (get_all_positions s) s"

text \<open>
  The \<open>if\<close>/\<open>elif\<close> chain of \<open>_check_position\<close> that chooses the exit reason
  (\<open>None\<close>: no exit).
\<close>

definition exit_decision :: "Position \<Rightarrow> ExitReason option" where
  "exit_decision position =
     (if should_stop_loss position then Some STOP_LOSS
      else if should_trailing_stop position then Some TRAILING_STOP
      else if should_take_profit position then Some TAKE_PROFIT
      else None)"

text \<open>The block of \<open>_check_position\<close> that arms the trailing stop.\<close>

definition activate_trailing :: "Position \<Rightarrow> Position" where
  "activate_trailing position =
     (let p1 = position\<lparr>trailing_active := True, status := TRAILING\<rparr>
      in if side p1 = ''LONG''
         then p1\<lparr>trailing_stop_price := current_price p1 * (1 - trailing_distance_pct p1 / 100)\<rparr>
         else p1\<lparr>trailing_stop_price := current_price p1 * (1 + trailing_distance_pct p1 / 100)\<rparr>)"

text \<open>
  The two trailing-stop blocks of \<open>_check_position\<close>, on the object behind \<open>position\<close>:
  arm the trailing stop and save; then, when it is armed, ratchet it and save if the
  stop moved.
\<close>

definition check_trailing :: "env \<Rightarrow> ref \<Rightarrow> state \<Rightarrow> state" where
  "check_trailing cfg position s1 =
     (let s2 = (if \<not> trailing_active (heap s1 position)
                   \<and> should_activate_trailing (heap s1 position)
                then save_positions cfg
                       (s1\<lparr>heap := (heap s1)(position :=
                              activate_trailing (heap s1 position))\<rparr>)
                else s1)
      in if trailing_active (heap s2 position)
         then (let old_stop = trailing_stop_price (heap s2 position);
                   s2a = s2\<lparr>heap := (heap s2)(position :=
                            update_trailing_stop (heap s2 position))\<rparr>
               in if trailing_stop_price (heap s2a position) \<noteq> old_stop
                  then save_positions cfg s2a else s2a)
         else s2)"

text \<open>
  \<open>_check_position\<close> returns nothing and raises nothing (its \<open>except\<close> clause logs). The
  model also returns what the check did: it failed with an exception, it chose no exit,
  or it chose an exit reason and called \<open>_close_position\<close>, which ended as given.
\<close>

datatype check_outcome = CheckFailed error | NoExit | Exit ExitReason "unit result"

definition check_position :: "env \<Rightarrow> ref \<Rightarrow> state \<Rightarrow> state \<times> check_outcome" where
  "check_position cfg position s =
     (let (p1, r) = update_pnl (heap s position);
          s1 = s\<lparr>heap := (heap s)(position := p1)\<rparr>
      in case r of
           Raised err \<Rightarrow> (s1, CheckFailed err)
         | Ok u \<Rightarrow>
            (let s3 = check_trailing cfg position s1
             in case exit_decision (heap s3 position) of
                  None \<Rightarrow> (s3, NoExit)
                | Some reason \<Rightarrow>
                    (let (s4, outcome) = close_position cfg position reason s3
                     in (s4, Exit reason outcome))))"

section \<open>The webhook server (main.py)\<close>

text \<open>
  The fields of \<open>TradingViewAlert\<close> that the handlers read. The three percentages are
  \<open>Optional[float]\<close>; \<open>alert_trailing_distance_pct\<close> is the alert's
  \<open>trailing_distance_pct\<close>. The class sets \<open>use_enum_values = True\<close> in its \<open>Config\<close>, so
  the validated \<open>action\<close> is not a member of \<open>Action\<close> but the member's value, a plain
  \<open>str\<close>.
\<close>

record TradingViewAlert =
  action :: string
  symbol :: string
  stop_loss_pct :: "real option"
  take_profit_pct :: "real option"
  trailing_activation_pct :: "real option"
  alert_trailing_distance_pct :: real
  position_size_usd :: real

text \<open>The value of a member of \<open>Action\<close>; a member compares equal to its value.\<close>

definition Action_value :: "Action \<Rightarrow> string" where
  "Action_value a = (case a of LONG \<Rightarrow> ''LONG'' | SHORT \<Rightarrow> ''SHORT''
                     | EXIT_LONG \<Rightarrow> ''EXIT_LONG'' | EXIT_SHORT \<Rightarrow> ''EXIT_SHORT''
                     | CLOSE_ALL \<Rightarrow> ''CLOSE_ALL'')"

text \<open>
  Reading the attribute \<open>value\<close> of a \<open>str\<close>: a \<open>str\<close> has no such attribute, so the
  read raises \<open>AttributeError\<close> whatever the string is.
\<close>

definition str_value :: "string \<Rightarrow> string result" where
  "str_value v = Raised AttributeError"

datatype response =
    PaperTradeMode string string
  | PositionOpened string string string real real
  | NoPositionFound string string
  | PositionClosed string string string real real
  | ClosedPositions "string list"

text \<open>
  The part of both entry handlers after the fill price is known: the arithmetic on the
  alert's percentages (\<open>TypeError\<close> on \<open>None\<close>), the new \<open>Position\<close> with a fresh
  identifier and \<open>opened_at\<close> from the clock, \<open>add_position\<close>, and the re-subscription.
  \<open>dir\<close> is 1 for LONG and -1 for SHORT.
\<close>

definition open_position ::
  "env \<Rightarrow> TradingViewAlert \<Rightarrow> string \<Rightarrow> real \<Rightarrow> real \<Rightarrow> state \<Rightarrow> state \<times> response result" where
  "open_position cfg alert sd dir fill_price s =
     (if fill_price = 0 then (s, Raised ZeroDivisionError)
      else
       (let position_size = position_size_usd alert / fill_price
        in case stop_loss_pct alert of None \<Rightarrow> (s, Raised TypeError) | Some slp \<Rightarrow>
           (case take_profit_pct alert of None \<Rightarrow> (s, Raised TypeError) | Some tpp \<Rightarrow>
           (case trailing_activation_pct alert of None \<Rightarrow> (s, Raised TypeError) | Some tap \<Rightarrow>
           (let sl_price = fill_price * (1 - dir * slp / 100);
                tp_price = fill_price * (1 + dir * tpp / 100);
                ta_price = fill_price * (1 + dir * tap / 100);
                new_pos = \<lparr>position_id = uuid4 cfg (clock s), product_id = symbol alert,
                   side = sd, size_base = position_size, entry_price = fill_price,
                   current_price = fill_price, stop_loss_price = sl_price,
                   take_profit_price = tp_price, trailing_activation_price = ta_price,
                   trailing_distance_pct = alert_trailing_distance_pct alert,
                   status = ACTIVE, trailing_active = False, trailing_stop_price = 0,
                   opened_at = utcnow cfg (Suc (clock s)), closed_at = None,
                   exit_reason = None, pnl = 0, pnl_pct = 0\<rparr>;
                (position, s1) = new_object new_pos (s\<lparr>clock := Suc (Suc (clock s))\<rparr>);
                s2 = add_position cfg position s1;
                (s3, sub) = gateway cfg (SubscribeTrades (get_active_products s2)) s2
            in case sub of
                 Raised err \<Rightarrow> (s3, Raised err)
               | Ok u \<Rightarrow> (s3, Ok (PositionOpened sd (position_id new_pos) (symbol alert)
                                     fill_price position_size)))))))"

definition handle_long_entry :: "env \<Rightarrow> TradingViewAlert \<Rightarrow> state \<Rightarrow> state \<times> response result" where
  "handle_long_entry cfg alert s =
     (if int (length (positions s)) \<ge> MAX_CONCURRENT_POSITIONS cfg
      then (s, Raised (HTTPException 400))
      else if list_ex (\<lambda>pos. product_id (heap s pos) = symbol alert) (get_all_positions s)
      then (s, Raised (HTTPException 400))
      else
       (let (s1, order) =
              gateway cfg (PlaceMarketOrder (symbol alert) ''BUY'' (position_size_usd alert)) s
        in case order of
             Raised err \<Rightarrow> (s1, Raised err)
           | Ok u \<Rightarrow>
              (let (s2, fill_price) = get_current_price cfg (symbol alert) s1
               in open_position cfg alert ''LONG'' 1 fill_price s2)))"

definition handle_short_entry :: "env \<Rightarrow> TradingViewAlert \<Rightarrow> state \<Rightarrow> state \<times> response result" where
  "handle_short_entry cfg alert s =
     (if int (length (positions s)) \<ge> MAX_CONCURRENT_POSITIONS cfg
      then (s, Raised (HTTPException 400))
      else if list_ex (\<lambda>pos. product_id (heap s pos) = symbol alert) (get_all_positions s)
      then (s, Raised (HTTPException 400))
      else
       (let (s1, order) =
              gateway cfg (PlaceMarketOrder (symbol alert) ''SELL'' (position_size_usd alert)) s
        in case order of
             Raised err \<Rightarrow> (s1, Raised err)
           | Ok u \<Rightarrow>
              (let (s2, fill_price) = get_current_price cfg (symbol alert) s1
               in open_position cfg alert ''SHORT'' (- 1) fill_price s2)))"

definition handle_exit ::
  "env \<Rightarrow> TradingViewAlert \<Rightarrow> string \<Rightarrow> state \<Rightarrow> state \<times> response result" where
  "handle_exit cfg alert sd s =
     (case find (\<lambda>pos. product_id (heap s pos) = symbol alert \<and> side (heap s pos) = sd)
                (get_all_positions s) of
        None \<Rightarrow> (s, Ok (NoPositionFound sd (symbol alert)))
      | Some position_to_close \<Rightarrow>
          (case close_position_manual cfg (position_id (heap s position_to_close)) s of
             (s1, Raised err) \<Rightarrow> (s1, Raised err)
           | (s1, Ok b) \<Rightarrow>
               (s1, Ok (PositionClosed sd (position_id (heap s1 position_to_close))
                          (symbol alert) (pnl (heap s1 position_to_close))
                          (pnl_pct (heap s1 position_to_close))))))"

fun handle_close_all_loop ::
  "env \<Rightarrow> ref list \<Rightarrow> string list \<Rightarrow> state \<Rightarrow> state \<times> string list result" where
  "handle_close_all_loop cfg [] positions_closed s = (s, Ok positions_closed)"
| "handle_close_all_loop cfg (pos # rest) positions_closed s =
     (case close_position_manual cfg (position_id (heap s pos)) s of
        (s1, Raised err) \<Rightarrow> (s1, Raised err)
      | (s1, Ok b) \<Rightarrow>
          handle_close_all_loop cfg rest (positions_closed @ [position_id (heap s1 pos)]) s1)"

definition handle_close_all :: "env \<Rightarrow> state \<Rightarrow> state \<times> response result" where
  "handle_close_all cfg s =
     (case handle_close_all_loop cfg (get_all_positions s) [] s of
        (s1, Raised err) \<Rightarrow> (s1, Raised err)
      | (s1, Ok positions_closed) \<Rightarrow> (s1, Ok (ClosedPositions positions_closed)))"

text \<open>
  The \<open>/webhook\<close> endpoint. The body of its \<open>try\<close> starts with a log line that reads
  \<open>alert.action.value\<close>, before the test of \<open>ENABLE_TRADING\<close>; the paper-mode response
  reads it again. Then comes the paper-mode return, then the routing, whose comparisons
  are those of the source (with \<open>else\<close>: \<open>HTTPException(400)\<close>). Any exception raised in
  the \<open>try\<close> becomes \<open>HTTPException(500)\<close>. The other calls of the logger, here and
  elsewhere, format values that cannot fail and are not modelled.
\<close>

definition webhook :: "env \<Rightarrow> TradingViewAlert \<Rightarrow> state \<Rightarrow> state \<times> response result" where
  "webhook cfg alert s =
     (case (case str_value (action alert) of
              Raised err \<Rightarrow> (s, Raised err)
            | Ok logged \<Rightarrow>
               (if \<not> ENABLE_TRADING cfg
                then (case str_value (action alert) of
                        Raised err \<Rightarrow> (s, Raised err)
                      | Ok v \<Rightarrow> (s, Ok (PaperTradeMode v (symbol alert))))
                else if action alert = Action_value LONG then handle_long_entry cfg alert s
                else if action alert = Action_value SHORT then handle_short_entry cfg alert s
                else if action alert = Action_value EXIT_LONG
                  then handle_exit cfg alert ''LONG'' s
                else if action alert = Action_value EXIT_SHORT
                  then handle_exit cfg alert ''SHORT'' s
                else if action alert = Action_value CLOSE_ALL then handle_close_all cfg s
                else (s, Raised (HTTPException 400)))) of
        (s1, Raised err) \<Rightarrow> (s1, Raised (HTTPException 500))
      | (s1, Ok resp) \<Rightarrow> (s1, Ok resp))"

text \<open>The \<open>/close/{position_id}\<close> endpoint.\<close>

definition close_position_endpoint :: "env \<Rightarrow> string \<Rightarrow> state \<Rightarrow> state \<times> bool result" where
  "close_position_endpoint cfg pid s =
     (case close_position_manual cfg pid s of
        (s1, Ok True) \<Rightarrow> (s1, Ok True)
      | (s1, Ok False) \<Rightarrow> (s1, Raised (HTTPException 500))
      | (s1, Raised err) \<Rightarrow> (s1, Raised (HTTPException 500)))"


section \<open>Auxiliary notions for the theorems\<close>

text \<open>
  The position as the exit conditions of \<open>_check_position\<close> see it: after \<open>update_pnl\<close>,
  the arming of the trailing stop and the ratchet, in the order of the source.
\<close>

definition check_prepared :: "Position \<Rightarrow> Position" where
  "check_prepared position =
     (let p1 = fst (update_pnl position);
          p2 = (if \<not> trailing_active p1 \<and> should_activate_trailing p1
                then activate_trailing p1 else p1)
      in if trailing_active p2 then update_trailing_stop p2 else p2)"

text \<open>What \<open>_save_positions\<close> writes for the dict of a state.\<close>

definition saved_data :: "env \<Rightarrow> state \<Rightarrow> (string \<times> entry) list" where
  "saved_data cfg s =
     map (\<lambda>(key, pos). (key, Object (save_entry cfg (heap s pos)))) (positions s)"

text \<open>The position set by value: each identifier with the fields of its object.\<close>

definition position_set :: "state \<Rightarrow> (string \<times> Position) list" where
  "position_set s = map (\<lambda>(key, pos). (key, heap s pos)) (positions s)"

text \<open>
  The state after the marking and the removal that \<open>_close_position\<close> performs once
  the close is decided (paper mode) or accepted by the exchange (live mode).
\<close>

definition closed_state :: "env \<Rightarrow> ref \<Rightarrow> ExitReason \<Rightarrow> state \<Rightarrow> state" where
  "closed_state cfg position reason s =
     fst (remove_position cfg (position_id (heap s position)) (mark_closed cfg position reason s))"

text \<open>
  The position set in the sense of the spec: a dict of open positions. Its keys and
  its objects are pairwise distinct, every object was allocated, is stored under its
  own identifier and carries neither a close timestamp nor an exit reason.
\<close>

definition manager_inv :: "state \<Rightarrow> bool" where
  "manager_inv s \<longleftrightarrow>
     distinct (map fst (positions s)) \<and> distinct (map snd (positions s)) \<and>
     (\<forall>kr \<in> set (positions s).
        snd kr < next_ref s \<and> position_id (heap s (snd kr)) = fst kr \<and>
        closed_at (heap s (snd kr)) = None \<and> exit_reason (heap s (snd kr)) = None)"

text \<open>An entry of the file from which \<open>_load_positions\<close> builds a position.\<close>

definition loads :: "env \<Rightarrow> string \<times> entry \<Rightarrow> bool" where
  "loads cfg ke = (case load_entry cfg (snd ke) of Ok p \<Rightarrow> True | Raised err \<Rightarrow> False)"

subsection \<open>Concrete inputs\<close>

text \<open>
  A paper-mode environment whose exchange accepts every call; timestamps are written
  in unary, which \<open>fromisoformat\<close> reads back and anything else makes it fail.
\<close>

definition example_env :: env where
  "example_env =
     \<lparr>ENABLE_TRADING = False, MAX_CONCURRENT_POSITIONS = 5,
      gateway_raises = (\<lambda>calls call. None),
      quoted_price = (\<lambda>calls product. 100),
      file_writable = True,
      utcnow = (\<lambda>n. 1000 + n),
      uuid4 = (\<lambda>n. replicate (Suc n) (CHR ''u'')),
      isoformat = (\<lambda>t. replicate t (CHR ''I'')),
      fromisoformat = (\<lambda>v. if v = replicate (length v) (CHR ''I'')
                            then Some (length v) else None)\<rparr>"

text \<open>The same environment in live mode, with an exchange that rejects every call.\<close>

definition example_env_rejecting :: env where
  "example_env_rejecting =
     example_env\<lparr>ENABLE_TRADING := True, gateway_raises := (\<lambda>calls call. Some GatewayError)\<rparr>"

text \<open>The LONG position of the spec's scenario A, just opened at 100.\<close>

definition example_long :: Position where
  "example_long =
     \<lparr>position_id = ''p1'', product_id = ''BTC-USD'', side = ''LONG'', size_base = 1,
      entry_price = 100, current_price = 100, stop_loss_price = 98.5,
      take_profit_price = 101.5, trailing_activation_price = 100.8,
      trailing_distance_pct = 0.75, status = ACTIVE, trailing_active = False,
      trailing_stop_price = 0, opened_at = 3, closed_at = None, exit_reason = None,
      pnl = 0, pnl_pct = 0\<rparr>"

text \<open>A SHORT position opened at 100 on another product.\<close>

definition example_short :: Position where
  "example_short =
     \<lparr>position_id = ''p2'', product_id = ''ETH-USD'', side = ''SHORT'', size_base = 2,
      entry_price = 100, current_price = 100, stop_loss_price = 101.5,
      take_profit_price = 98.5, trailing_activation_price = 99.2,
      trailing_distance_pct = 0.75, status = ACTIVE, trailing_active = False,
      trailing_stop_price = 0, opened_at = 4, closed_at = None, exit_reason = None,
      pnl = 0, pnl_pct = 0\<rparr>"

text \<open>A manager that monitors the LONG position under reference 0.\<close>

definition example_state :: state where
  "example_state =
     \<lparr>heap = (\<lambda>r. if r = 0 then example_long else example_short), next_ref = 2,
      positions = [(''p1'', 0)], positions_file = NoFile, gateway_calls = [], clock = 0\<rparr>"


text \<open>
  The same manager when the price of the LONG position is at its stop and at its target
  at once (both levels at 98, price 98).
\<close>

definition example_state_both :: state where
  "example_state_both =
     example_state\<lparr>heap := (heap example_state)
        (0 := example_long\<lparr>current_price := 98, stop_loss_price := 98,
                            take_profit_price := 98\<rparr>)\<rparr>"

text \<open>The same, with the entry price of the position at 0.\<close>

definition example_state_entry0 :: state where
  "example_state_entry0 =
     example_state\<lparr>heap := (heap example_state)
        (0 := example_long\<lparr>entry_price := 0, current_price := 98, stop_loss_price := 98,
                            take_profit_price := 98\<rparr>)\<rparr>"

text \<open>
  A second object, under reference 1, that carries the identifier of the monitored
  position.
\<close>

definition example_state_dup :: state where
  "example_state_dup =
     example_state\<lparr>heap := (heap example_state)
        (1 := example_short\<lparr>position_id := ''p1''\<rparr>)\<rparr>"

text \<open>An armed SHORT position whose stored trailing stop is still 0.\<close>

definition example_short_unset :: Position where
  "example_short_unset = example_short\<lparr>trailing_active := True, status := TRAILING\<rparr>"

text \<open>
  A file whose first entry is the saved LONG position and whose second entry is not an
  object.
\<close>

definition example_file_partial :: file_content where
  "example_file_partial =
     Mapping [(''p1'', Object (save_entry example_env example_long)), (''p2'', NotAnObject)]"


text \<open>
  The LONG position armed with its stop at 100 and the price at the target, and the
  SHORT position armed with its stop at 100.5 and the price at 99.
\<close>

definition example_long_armed :: Position where
  "example_long_armed =
     example_long\<lparr>trailing_active := True, status := TRAILING, trailing_stop_price := 100,
                  current_price := 101.5\<rparr>"

definition example_short_armed :: Position where
  "example_short_armed =
     example_short\<lparr>trailing_active := True, status := TRAILING, trailing_stop_price := 100.5,
                   current_price := 99\<rparr>"

text \<open>An alert that asks to leave the LONG position on the monitored product.\<close>

definition example_alert :: TradingViewAlert where
  "example_alert =
     \<lparr>action = ''EXIT_LONG'', symbol = ''BTC-USD'', stop_loss_pct = Some 1.5,
      take_profit_pct = Some 1.5, trailing_activation_pct = Some 0.8,
      alert_trailing_distance_pct = 0.75, position_size_usd = 100\<rparr>"

section \<open>Properties\<close>

subsection \<open>Dictionaries and the frame of a save\<close>

lemma dict_get_dict_set: "dict_get (dict_set k v d) k' = (if k' = k then Some v else dict_get d k')"
  by (induction d) auto

lemma dict_set_absent: "dict_get d k = None \<Longrightarrow> dict_set k v d = d @ [(k, v)]"
  by (induction d) (auto split: if_splits)

lemma dict_get_None_iff: "dict_get d k = None \<longleftrightarrow> k \<notin> fst ` set d"
  by (induction d) auto

lemma dict_get_dict_pop:
  "distinct (map fst d) \<Longrightarrow> dict_get (dict_pop k d) k' = (if k' = k then None else dict_get d k')"
proof (induction d)
  case Nil
  then show ?case by simp
next
  case (Cons e d)
  have "fst e \<notin> fst ` set d" using Cons.prems by simp
  then have "dict_get d (fst e) = None" by (simp add: dict_get_None_iff)
  with Cons show ?case by auto
qed

lemma dict_pop_absent: "dict_get d k = None \<Longrightarrow> dict_pop k d = d"
  by (induction d) (auto split: if_splits)

lemma heap_save_positions [simp]: "heap (save_positions cfg s) = heap s"
  by (simp add: save_positions_def Let_def)

lemma positions_save_positions [simp]: "positions (save_positions cfg s) = positions s"
  by (simp add: save_positions_def Let_def)

lemma gateway_calls_save_positions [simp]: "gateway_calls (save_positions cfg s) = gateway_calls s"
  by (simp add: save_positions_def Let_def)

lemma clock_save_positions [simp]: "clock (save_positions cfg s) = clock s"
  by (simp add: save_positions_def Let_def)

lemma next_ref_save_positions [simp]: "next_ref (save_positions cfg s) = next_ref s"
  by (simp add: save_positions_def Let_def)

lemma positions_file_save_positions:
  "file_writable cfg \<Longrightarrow> positions_file (save_positions cfg s) = Mapping (saved_data cfg s)"
  by (simp add: save_positions_def saved_data_def Let_def)

lemma saved_data_save_positions [simp]: "saved_data cfg (save_positions cfg' s) = saved_data cfg s"
  by (simp add: saved_data_def)

subsection \<open>The trigger predicates and the ratchet\<close>

text \<open>
  Claim C5. For a LONG position \<open>should_stop_loss\<close> holds exactly when the current price
  is at or below the stop-loss price and \<open>should_take_profit\<close> exactly when it is at
  or above the take-profit price; for a SHORT position both comparisons are reversed.
\<close>

theorem should_stop_loss_take_profit_iff:
  "(side p = ''LONG'' \<longrightarrow>
      (should_stop_loss p \<longleftrightarrow> current_price p \<le> stop_loss_price p) \<and>
      (should_take_profit p \<longleftrightarrow> current_price p \<ge> take_profit_price p)) \<and>
   (side p = ''SHORT'' \<longrightarrow>
      (should_stop_loss p \<longleftrightarrow> current_price p \<ge> stop_loss_price p) \<and>
      (should_take_profit p \<longleftrightarrow> current_price p \<le> take_profit_price p))"
  by (simp add: should_stop_loss_def should_take_profit_def)

text \<open>A concrete instance.\<close>

theorem should_stop_loss_take_profit_iff_witness:
  "side example_long = ''LONG'' \<and>
   (should_stop_loss example_long \<longleftrightarrow>
      current_price example_long \<le> stop_loss_price example_long) \<and>
   (should_take_profit example_long \<longleftrightarrow>
      current_price example_long \<ge> take_profit_price example_long) \<and>
   side example_short = ''SHORT'' \<and>
   (should_stop_loss example_short \<longleftrightarrow>
      current_price example_short \<ge> stop_loss_price example_short) \<and>
   (should_take_profit example_short \<longleftrightarrow>
      current_price example_short \<le> take_profit_price example_short)"
proof -
  have a: "side example_long = ''LONG''" by (simp add: example_long_def)
  have b: "side example_short = ''SHORT''" by (simp add: example_short_def)
  show ?thesis
    using should_stop_loss_take_profit_iff [of example_long]
      should_stop_loss_take_profit_iff [of example_short] a b
    by blast
qed

text \<open>
  Claim C2, as amended. On an armed position \<open>update_trailing_stop\<close> never lowers the
  stored trailing stop of a LONG position, and never raises that of a SHORT position
  whose stored stop is not 0. A stored stop of 0 on a SHORT position counts as unset
  and is replaced by the candidate, whatever its value. The stored stop changes only
  to a strictly greater value (LONG), or to a strictly smaller value or from 0 (SHORT),
  and no other field changes.
\<close>

theorem update_trailing_stop_ratchet:
  assumes "trailing_active p"
  shows "(side p = ''LONG'' \<longrightarrow>
            trailing_stop_price p \<le> trailing_stop_price (update_trailing_stop p)) \<and>
         (side p \<noteq> ''LONG'' \<and> trailing_stop_price p \<noteq> 0 \<longrightarrow>
            trailing_stop_price (update_trailing_stop p) \<le> trailing_stop_price p) \<and>
         (side p \<noteq> ''LONG'' \<and> trailing_stop_price p = 0 \<longrightarrow>
            trailing_stop_price (update_trailing_stop p) =
              current_price p * (1 + trailing_distance_pct p / 100)) \<and>
         (trailing_stop_price (update_trailing_stop p) \<noteq> trailing_stop_price p \<longrightarrow>
            (if side p = ''LONG''
             then trailing_stop_price p < trailing_stop_price (update_trailing_stop p)
             else trailing_stop_price (update_trailing_stop p) < trailing_stop_price p
                  \<or> trailing_stop_price p = 0)) \<and>
         update_trailing_stop p =
           p\<lparr>trailing_stop_price := trailing_stop_price (update_trailing_stop p)\<rparr>"
  using assms by (auto simp: update_trailing_stop_def Let_def)

text \<open>A concrete instance.\<close>

theorem update_trailing_stop_ratchet_witness:
  "trailing_active example_long_armed \<and> side example_long_armed = ''LONG'' \<and>
   trailing_stop_price example_long_armed
     \<le> trailing_stop_price (update_trailing_stop example_long_armed) \<and>
   trailing_active example_short_armed \<and> side example_short_armed \<noteq> ''LONG'' \<and>
   trailing_stop_price example_short_armed \<noteq> 0 \<and>
   trailing_stop_price (update_trailing_stop example_short_armed)
     \<le> trailing_stop_price example_short_armed"
proof -
  have a: "trailing_active example_long_armed"
    by (simp add: example_long_armed_def)
  have b: "side example_long_armed = ''LONG''"
    by (simp add: example_long_armed_def example_long_def)
  have c: "trailing_active example_short_armed"
    by (simp add: example_short_armed_def)
  have d: "side example_short_armed \<noteq> ''LONG''"
    by (simp add: example_short_armed_def example_short_def)
  have e: "trailing_stop_price example_short_armed \<noteq> 0"
    by (simp add: example_short_armed_def)
  show ?thesis
    using update_trailing_stop_ratchet [OF a] update_trailing_stop_ratchet [OF c] a b c d e
    by blast
qed

text \<open>
  Claim C2 as stated fails: an armed SHORT position whose stored trailing stop is 0 gets
  the stop 100.75 at price 100, which is an increase.
\<close>

theorem update_trailing_stop_short_counterexample:
  "trailing_active example_short_unset \<and> side example_short_unset = ''SHORT'' \<and>
   trailing_stop_price example_short_unset = 0 \<and>
   trailing_stop_price (update_trailing_stop example_short_unset) = 100.75 \<and>
   trailing_stop_price example_short_unset
     < trailing_stop_price (update_trailing_stop example_short_unset)"
  by (simp add: example_short_unset_def example_short_def update_trailing_stop_def Let_def)

subsection \<open>The exit decision of one check\<close>

lemma update_pnl_frame:
  "side (fst (update_pnl p)) = side p"
  "current_price (fst (update_pnl p)) = current_price p"
  "stop_loss_price (fst (update_pnl p)) = stop_loss_price p"
  "take_profit_price (fst (update_pnl p)) = take_profit_price p"
  by (simp_all add: update_pnl_def Let_def)

lemma activate_trailing_frame:
  "side (activate_trailing p) = side p"
  "current_price (activate_trailing p) = current_price p"
  "stop_loss_price (activate_trailing p) = stop_loss_price p"
  "take_profit_price (activate_trailing p) = take_profit_price p"
  by (simp_all add: activate_trailing_def Let_def)

lemma update_trailing_stop_frame:
  "side (update_trailing_stop p) = side p"
  "current_price (update_trailing_stop p) = current_price p"
  "stop_loss_price (update_trailing_stop p) = stop_loss_price p"
  "take_profit_price (update_trailing_stop p) = take_profit_price p"
  by (simp_all add: update_trailing_stop_def Let_def)

lemma check_prepared_frame:
  "side (check_prepared p) = side p"
  "current_price (check_prepared p) = current_price p"
  "stop_loss_price (check_prepared p) = stop_loss_price p"
  "take_profit_price (check_prepared p) = take_profit_price p"
  by (simp_all add: check_prepared_def Let_def update_pnl_frame activate_trailing_frame
        update_trailing_stop_frame)

lemma should_stop_loss_check_prepared:
  "should_stop_loss (check_prepared p) = should_stop_loss p"
  by (simp add: should_stop_loss_def check_prepared_frame)

lemma should_take_profit_check_prepared:
  "should_take_profit (check_prepared p) = should_take_profit p"
  by (simp add: should_take_profit_def check_prepared_frame)

lemma update_pnl_Ok: "entry_price p \<noteq> 0 \<Longrightarrow> snd (update_pnl p) = Ok ()"
  by (simp add: update_pnl_def Let_def)

lemma update_pnl_Raised: "entry_price p = 0 \<Longrightarrow> snd (update_pnl p) = Raised ZeroDivisionError"
  by (simp add: update_pnl_def Let_def)

lemma heap_check_trailing:
  "heap (check_trailing cfg position s1) position =
     (let p1 = heap s1 position;
          p2 = (if \<not> trailing_active p1 \<and> should_activate_trailing p1
                then activate_trailing p1 else p1)
      in if trailing_active p2 then update_trailing_stop p2 else p2)"
  by (simp add: check_trailing_def Let_def)

lemma check_position_Ok:
  assumes "entry_price (heap s position) \<noteq> 0"
  shows "check_position cfg position s =
           (let s3 = check_trailing cfg position
                       (s\<lparr>heap := (heap s)(position := fst (update_pnl (heap s position)))\<rparr>)
            in case exit_decision (check_prepared (heap s position)) of
                 None \<Rightarrow> (s3, NoExit)
               | Some reason \<Rightarrow> (fst (close_position cfg position reason s3),
                                 Exit reason (snd (close_position cfg position reason s3))))"
proof -
  obtain p1 where p1: "update_pnl (heap s position) = (p1, Ok ())"
    using update_pnl_Ok [OF assms] by (cases "update_pnl (heap s position)") auto
  have prep: "heap (check_trailing cfg position (s\<lparr>heap := (heap s)(position := p1)\<rparr>)) position
                = check_prepared (heap s position)"
    by (simp add: heap_check_trailing check_prepared_def p1)
  show ?thesis
    unfolding check_position_def p1
    by (simp add: Let_def prep split: option.splits prod.splits)
qed

lemma check_position_Raised:
  assumes "entry_price (heap s position) = 0"
  shows "snd (check_position cfg position s) = CheckFailed ZeroDivisionError"
proof -
  obtain p1 where p1: "update_pnl (heap s position) = (p1, Raised ZeroDivisionError)"
    using update_pnl_Raised [OF assms] by (cases "update_pnl (heap s position)") auto
  show ?thesis unfolding check_position_def p1 by simp
qed

text \<open>
  Claim C1, as amended. One check of a position whose entry price is not 0 chooses the
  exit by the fixed priority stop-loss, trailing-stop, take-profit, evaluated on the
  position as the check has prepared it; the stop-loss and take-profit conditions are
  the same before and after the preparation, so whenever both hold of the incoming
  position the check exits with STOP_LOSS. For every position, entry price 0 included,
  the check never exits with TAKE_PROFIT while the stop-loss condition holds.
\<close>

theorem check_position_exit_priority:
  "(entry_price (heap s position) \<noteq> 0 \<longrightarrow>
      (should_stop_loss (check_prepared (heap s position)) \<longrightarrow>
         (\<exists>c. snd (check_position cfg position s) = Exit STOP_LOSS c)) \<and>
      (\<not> should_stop_loss (check_prepared (heap s position)) \<and>
       should_trailing_stop (check_prepared (heap s position)) \<longrightarrow>
         (\<exists>c. snd (check_position cfg position s) = Exit TRAILING_STOP c)) \<and>
      (\<not> should_stop_loss (check_prepared (heap s position)) \<and>
       \<not> should_trailing_stop (check_prepared (heap s position)) \<and>
       should_take_profit (check_prepared (heap s position)) \<longrightarrow>
         (\<exists>c. snd (check_position cfg position s) = Exit TAKE_PROFIT c)) \<and>
      (\<not> should_stop_loss (check_prepared (heap s position)) \<and>
       \<not> should_trailing_stop (check_prepared (heap s position)) \<and>
       \<not> should_take_profit (check_prepared (heap s position)) \<longrightarrow>
         snd (check_position cfg position s) = NoExit) \<and>
      (should_stop_loss (heap s position) \<and> should_take_profit (heap s position) \<longrightarrow>
         (\<exists>c. snd (check_position cfg position s) = Exit STOP_LOSS c))) \<and>
   (should_stop_loss (heap s position) \<longrightarrow>
      (\<forall>c. snd (check_position cfg position s) \<noteq> Exit TAKE_PROFIT c))"
proof (cases "entry_price (heap s position) = 0")
  case True
  then show ?thesis by (simp add: check_position_Raised)
next
  case False
  then show ?thesis
    by (simp add: check_position_Ok [OF False] exit_decision_def Let_def
          should_stop_loss_check_prepared should_take_profit_check_prepared)
qed

text \<open>A concrete instance.\<close>

theorem check_position_exit_priority_witness:
  "entry_price (heap example_state_both 0) \<noteq> 0 \<and>
   should_stop_loss (heap example_state_both 0) \<and>
   should_take_profit (heap example_state_both 0) \<and>
   (\<exists>c. snd (check_position example_env 0 example_state_both) = Exit STOP_LOSS c) \<and>
   (\<forall>c. snd (check_position example_env 0 example_state_both) \<noteq> Exit TAKE_PROFIT c)"
proof -
  have a: "entry_price (heap example_state_both 0) \<noteq> 0"
    by (simp add: example_state_both_def example_long_def)
  have b: "should_stop_loss (heap example_state_both 0)"
    by (simp add: example_state_both_def example_long_def should_stop_loss_def)
  have c: "should_take_profit (heap example_state_both 0)"
    by (simp add: example_state_both_def example_long_def should_take_profit_def)
  show ?thesis
    using check_position_exit_priority [of example_state_both 0 example_env] a b c by blast
qed

text \<open>
  Claim C1 as stated fails: for a position with entry price 0 on which the stop-loss and
  the take-profit conditions both hold, \<open>update_pnl\<close> raises \<open>ZeroDivisionError\<close>, the
  check ends there and chooses no exit; the position stays in the set.
\<close>

theorem check_position_entry_zero_counterexample:
  "should_stop_loss (heap example_state_entry0 0) \<and>
   should_take_profit (heap example_state_entry0 0) \<and>
   snd (check_position example_env 0 example_state_entry0) = CheckFailed ZeroDivisionError \<and>
   snd (check_position example_env 0 example_state_entry0) \<noteq> Exit STOP_LOSS (Ok ()) \<and>
   positions (fst (check_position example_env 0 example_state_entry0)) = [(''p1'', 0)]"
  by (simp add: example_state_entry0_def example_state_def example_long_def
        should_stop_loss_def should_take_profit_def check_position_def update_pnl_def Let_def)

subsection \<open>Adding a position\<close>

text \<open>
  Claim C3, as amended. \<open>add_position\<close> never fails. It stores the position under its
  identifier: an absent identifier is appended to the set, a present one has its entry
  replaced in place; the other entries are untouched, and when the file can be written
  it holds the new set.
\<close>

theorem add_position_effect:
  "positions (add_position cfg position s) =
     dict_set (position_id (heap s position)) position (positions s) \<and>
   heap (add_position cfg position s) = heap s \<and>
   get_position (position_id (heap s position)) (add_position cfg position s) = Some position \<and>
   (\<forall>key. key \<noteq> position_id (heap s position) \<longrightarrow>
      get_position key (add_position cfg position s) = get_position key s) \<and>
   (get_position (position_id (heap s position)) s = None \<longrightarrow>
      positions (add_position cfg position s) =
        positions s @ [(position_id (heap s position), position)]) \<and>
   (file_writable cfg \<longrightarrow>
      positions_file (add_position cfg position s) =
        Mapping (saved_data cfg (add_position cfg position s)))"
  by (simp add: add_position_def get_position_def dict_get_dict_set dict_set_absent
        positions_file_save_positions)

text \<open>A concrete instance.\<close>

theorem add_position_effect_witness:
  "get_position (position_id (heap example_state 1)) example_state = None \<and>
   file_writable example_env \<and>
   positions (add_position example_env 1 example_state) = [(''p1'', 0), (''p2'', 1)] \<and>
   positions_file (add_position example_env 1 example_state) =
     Mapping (saved_data example_env (add_position example_env 1 example_state))"
proof -
  have a: "get_position (position_id (heap example_state 1)) example_state = None"
    by (simp add: example_state_def example_short_def get_position_def)
  have b: "file_writable example_env" by (simp add: example_env_def)
  have c: "positions example_state @ [(position_id (heap example_state 1), 1)]
             = [(''p1'', 0), (''p2'', 1)]"
    by (simp add: example_state_def example_short_def)
  show ?thesis
    using add_position_effect [of example_env 1 example_state] a b c by simp
qed

text \<open>
  Claim C3 as stated fails: adding a second object that carries the identifier of a
  monitored position returns normally and replaces the entry.
\<close>

theorem add_position_replaces_counterexample:
  "get_position ''p1'' example_state_dup = Some 0 \<and>
   position_id (heap example_state_dup 1) = ''p1'' \<and>
   positions (add_position example_env 1 example_state_dup) = [(''p1'', 1)] \<and>
   get_position ''p1'' (add_position example_env 1 example_state_dup) = Some 1"
  by (simp add: example_state_dup_def example_state_def example_short_def get_position_def
        add_position_def)

subsection \<open>Closing a position\<close>

lemma mark_closed_simps [simp]:
  "positions (mark_closed cfg position reason s) = positions s"
  "gateway_calls (mark_closed cfg position reason s) = gateway_calls s"
  "positions_file (mark_closed cfg position reason s) = positions_file s"
  "clock (mark_closed cfg position reason s) = Suc (clock s)"
  "next_ref (mark_closed cfg position reason s) = next_ref s"
  "heap (mark_closed cfg position reason s) =
     (heap s)(position := (heap s position)
        \<lparr>status := CLOSED, exit_reason := Some reason, closed_at := Some (utcnow cfg (clock s))\<rparr>)"
  by (simp_all add: mark_closed_def)

lemma position_id_mark_closed [simp]:
  "position_id (heap (mark_closed cfg position reason s) r) = position_id (heap s r)"
  by simp

lemma remove_position_simps [simp]:
  "positions (fst (remove_position cfg pid s)) = dict_pop pid (positions s)"
  "heap (fst (remove_position cfg pid s)) = heap s"
  "gateway_calls (fst (remove_position cfg pid s)) = gateway_calls s"
  "clock (fst (remove_position cfg pid s)) = clock s"
  "next_ref (fst (remove_position cfg pid s)) = next_ref s"
  by (simp_all add: remove_position_def dict_pop_absent split: option.splits)

lemma close_position_paper:
  "\<not> ENABLE_TRADING cfg \<Longrightarrow>
   close_position cfg position reason s = (closed_state cfg position reason s, Ok ())"
  by (simp add: close_position_def closed_state_def Let_def split: prod.splits)

lemma close_position_live_ok:
  "ENABLE_TRADING cfg \<Longrightarrow>
   gateway_raises cfg (gateway_calls s)
     (ClosePosition (product_id (heap s position)) (side (heap s position))
        (size_base (heap s position))) = None \<Longrightarrow>
   close_position cfg position reason s =
     (closed_state cfg position reason
        (s\<lparr>gateway_calls := gateway_calls s @
             [ClosePosition (product_id (heap s position)) (side (heap s position))
                (size_base (heap s position))]\<rparr>), Ok ())"
  by (simp add: close_position_def closed_state_def gateway_def Let_def split: prod.splits)

lemma close_position_live_raised:
  "ENABLE_TRADING cfg \<Longrightarrow>
   gateway_raises cfg (gateway_calls s)
     (ClosePosition (product_id (heap s position)) (side (heap s position))
        (size_base (heap s position))) = Some err \<Longrightarrow>
   close_position cfg position reason s =
     (s\<lparr>gateway_calls := gateway_calls s @
          [ClosePosition (product_id (heap s position)) (side (heap s position))
             (size_base (heap s position))]\<rparr>, Raised err)"
  by (simp add: close_position_def gateway_def Let_def split: prod.splits)

lemma save_positions_ENABLE_TRADING [simp]:
  "save_positions (cfg\<lparr>ENABLE_TRADING := b\<rparr>) s = save_positions cfg s"
  by (simp add: save_positions_def save_entry_def Let_def)

lemma closed_state_gateway_calls:
  "closed_state (cfg\<lparr>ENABLE_TRADING := b\<rparr>) position reason (s\<lparr>gateway_calls := g\<rparr>) =
     (closed_state cfg position reason s)\<lparr>gateway_calls := g\<rparr>"
  by (simp add: closed_state_def remove_position_def mark_closed_def save_positions_def
        save_entry_def Let_def split: option.splits)

lemma closed_state_simps:
  "positions (closed_state cfg position reason s) =
     dict_pop (position_id (heap s position)) (positions s)"
  "gateway_calls (closed_state cfg position reason s) = gateway_calls s"
  "heap (closed_state cfg position reason s) =
     (heap s)(position := (heap s position)
        \<lparr>status := CLOSED, exit_reason := Some reason, closed_at := Some (utcnow cfg (clock s))\<rparr>)"
  by (simp_all add: closed_state_def)

text \<open>
  Claim C4. In live mode, when the close call of the exchange client raises,
  \<open>_close_position\<close> raises the same error and changes nothing but the record of the
  call: the position set, the objects and the file are as before, so the position stays
  monitored. A manual close of that position raises likewise and leaves the set as it is.
\<close>

theorem close_position_gateway_failure:
  assumes "ENABLE_TRADING cfg"
    and "gateway_raises cfg (gateway_calls s)
           (ClosePosition (product_id (heap s position)) (side (heap s position))
              (size_base (heap s position))) = Some err"
  shows "close_position cfg position reason s =
           (s\<lparr>gateway_calls := gateway_calls s @
                [ClosePosition (product_id (heap s position)) (side (heap s position))
                   (size_base (heap s position))]\<rparr>, Raised err) \<and>
         positions (fst (close_position cfg position reason s)) = positions s \<and>
         heap (fst (close_position cfg position reason s)) = heap s \<and>
         positions_file (fst (close_position cfg position reason s)) = positions_file s \<and>
         (\<forall>pid. get_position pid s = Some position \<longrightarrow>
            snd (close_position_manual cfg pid s) = Raised err \<and>
            positions (fst (close_position_manual cfg pid s)) = positions s)"
  using assms by (simp add: close_position_live_raised close_position_manual_def)

text \<open>A concrete instance.\<close>

theorem close_position_gateway_failure_witness:
  "ENABLE_TRADING example_env_rejecting \<and>
   snd (close_position example_env_rejecting 0 STOP_LOSS example_state) = Raised GatewayError \<and>
   positions (fst (close_position example_env_rejecting 0 STOP_LOSS example_state)) = [(''p1'', 0)]"
proof -
  have a: "ENABLE_TRADING example_env_rejecting"
    by (simp add: example_env_rejecting_def)
  have b: "gateway_raises example_env_rejecting (gateway_calls example_state)
             (ClosePosition (product_id (heap example_state 0)) (side (heap example_state 0))
                (size_base (heap example_state 0))) = Some GatewayError"
    by (simp add: example_env_rejecting_def)
  show ?thesis
    using close_position_gateway_failure [OF a b, of STOP_LOSS] a
    by (simp add: example_state_def)
qed

text \<open>
  Claim C8. In paper mode \<open>_close_position\<close> returns normally without any call of the
  exchange client, marks the position CLOSED with the given reason and the current
  time, and removes its identifier from the set. Live mode with an exchange that
  accepts the order ends in the same state, up to the recorded call.
\<close>

theorem close_position_paper_mode:
  assumes "\<not> ENABLE_TRADING cfg" and "distinct (map fst (positions s))"
  shows "snd (close_position cfg position reason s) = Ok () \<and>
         gateway_calls (fst (close_position cfg position reason s)) = gateway_calls s \<and>
         heap (fst (close_position cfg position reason s)) =
           (heap s)(position := (heap s position)
              \<lparr>status := CLOSED, exit_reason := Some reason,
               closed_at := Some (utcnow cfg (clock s))\<rparr>) \<and>
         positions (fst (close_position cfg position reason s)) =
           dict_pop (position_id (heap s position)) (positions s) \<and>
         get_position (position_id (heap s position))
           (fst (close_position cfg position reason s)) = None \<and>
         (gateway_raises cfg (gateway_calls s)
            (ClosePosition (product_id (heap s position)) (side (heap s position))
               (size_base (heap s position))) = None \<longrightarrow>
          close_position (cfg\<lparr>ENABLE_TRADING := True\<rparr>) position reason s =
            ((fst (close_position cfg position reason s))
               \<lparr>gateway_calls := gateway_calls s @
                  [ClosePosition (product_id (heap s position)) (side (heap s position))
                     (size_base (heap s position))]\<rparr>, Ok ()))"
  using assms
  by (simp add: close_position_paper close_position_live_ok closed_state_simps
        closed_state_gateway_calls get_position_def dict_get_dict_pop)

text \<open>A concrete instance.\<close>

theorem close_position_paper_mode_witness:
  "\<not> ENABLE_TRADING example_env \<and> distinct (map fst (positions example_state)) \<and>
   gateway_calls (fst (close_position example_env 0 TAKE_PROFIT example_state)) = [] \<and>
   status (heap (fst (close_position example_env 0 TAKE_PROFIT example_state)) 0) = CLOSED \<and>
   exit_reason (heap (fst (close_position example_env 0 TAKE_PROFIT example_state)) 0)
     = Some TAKE_PROFIT \<and>
   closed_at (heap (fst (close_position example_env 0 TAKE_PROFIT example_state)) 0)
     = Some 1000 \<and>
   positions (fst (close_position example_env 0 TAKE_PROFIT example_state)) = []"
proof -
  have a: "\<not> ENABLE_TRADING example_env" by (simp add: example_env_def)
  have b: "distinct (map fst (positions example_state))" by (simp add: example_state_def)
  show ?thesis
    using close_position_paper_mode [OF a b, of 0 TAKE_PROFIT] a b
    by (simp add: example_state_def example_env_def example_long_def)
qed

text \<open>
  Claim C7, as amended. For an identifier that is not in the set, a manual close
  returns \<open>False\<close> and changes nothing. For the identifier of a monitored position, in
  live mode with an exchange that rejects the order, it raises the error of the exchange
  and leaves the set as it is. For the identifier of a monitored position that is
  stored under its own identifier (in a dict, so with unique keys) and whose close goes
  through (paper mode, or the exchange accepts the order), the first manual close
  returns \<open>True\<close>, and a second one, in any environment, returns \<open>False\<close> and leaves the
  whole state, hence the size of the set, unchanged.
\<close>

theorem close_position_manual_twice:
  "(get_position pid s = None \<longrightarrow> close_position_manual cfg pid s = (s, Ok False)) \<and>
   (\<forall>position err.
      get_position pid s = Some position \<and> ENABLE_TRADING cfg \<and>
      gateway_raises cfg (gateway_calls s)
        (ClosePosition (product_id (heap s position)) (side (heap s position))
           (size_base (heap s position))) = Some err \<longrightarrow>
      snd (close_position_manual cfg pid s) = Raised err \<and>
      positions (fst (close_position_manual cfg pid s)) = positions s) \<and>
   (\<forall>position.
      distinct (map fst (positions s)) \<and> get_position pid s = Some position \<and>
      position_id (heap s position) = pid \<and>
      (\<not> ENABLE_TRADING cfg \<or>
       gateway_raises cfg (gateway_calls s)
         (ClosePosition (product_id (heap s position)) (side (heap s position))
            (size_base (heap s position))) = None) \<longrightarrow>
      snd (close_position_manual cfg pid s) = Ok True \<and>
      close_position_manual cfg2 pid (fst (close_position_manual cfg pid s)) =
        (fst (close_position_manual cfg pid s), Ok False) \<and>
      length (positions (fst (close_position_manual cfg2 pid
                (fst (close_position_manual cfg pid s))))) =
        length (positions (fst (close_position_manual cfg pid s))))"
proof (intro conjI allI impI)
  assume "get_position pid s = None"
  then show "close_position_manual cfg pid s = (s, Ok False)"
    by (simp add: close_position_manual_def)
next
  fix position err
  assume "get_position pid s = Some position \<and> ENABLE_TRADING cfg \<and>
      gateway_raises cfg (gateway_calls s)
        (ClosePosition (product_id (heap s position)) (side (heap s position))
           (size_base (heap s position))) = Some err"
  then show "snd (close_position_manual cfg pid s) = Raised err"
    and "positions (fst (close_position_manual cfg pid s)) = positions s"
    by (simp_all add: close_position_manual_def close_position_live_raised)
next
  fix position
  assume h: "distinct (map fst (positions s)) \<and> get_position pid s = Some position \<and>
      position_id (heap s position) = pid \<and>
      (\<not> ENABLE_TRADING cfg \<or>
       gateway_raises cfg (gateway_calls s)
         (ClosePosition (product_id (heap s position)) (side (heap s position))
            (size_base (heap s position))) = None)"
  have first: "close_position_manual cfg pid s =
      (fst (close_position cfg position MANUAL s), Ok True) \<and>
      get_position pid (fst (close_position cfg position MANUAL s)) = None"
  proof (cases "ENABLE_TRADING cfg")
    case False
    with h show ?thesis
      by (simp add: close_position_manual_def close_position_paper closed_state_simps
            get_position_def dict_get_dict_pop)
  next
    case True
    with h show ?thesis
      by (simp add: close_position_manual_def close_position_live_ok closed_state_simps
            get_position_def dict_get_dict_pop)
  qed
  then show "snd (close_position_manual cfg pid s) = Ok True" by simp
  from first show second: "close_position_manual cfg2 pid (fst (close_position_manual cfg pid s)) =
        (fst (close_position_manual cfg pid s), Ok False)"
    by (simp add: close_position_manual_def)
  then show "length (positions (fst (close_position_manual cfg2 pid
                (fst (close_position_manual cfg pid s))))) =
        length (positions (fst (close_position_manual cfg pid s)))"
    by simp
qed

text \<open>A concrete instance.\<close>

theorem close_position_manual_twice_witness:
  "snd (close_position_manual example_env ''p1'' example_state) = Ok True \<and>
   snd (close_position_manual example_env ''p1''
          (fst (close_position_manual example_env ''p1'' example_state))) = Ok False \<and>
   close_position_manual example_env ''p9'' example_state = (example_state, Ok False)"
proof -
  have a: "distinct (map fst (positions example_state))" by (simp add: example_state_def)
  have b: "get_position ''p1'' example_state = Some 0"
    by (simp add: example_state_def get_position_def)
  have c: "position_id (heap example_state 0) = ''p1''"
    by (simp add: example_state_def example_long_def)
  have d: "\<not> ENABLE_TRADING example_env" by (simp add: example_env_def)
  have e: "get_position ''p9'' example_state = None"
    by (simp add: example_state_def get_position_def)
  show ?thesis
    using close_position_manual_twice [of "''p1''" example_state example_env example_env]
      close_position_manual_twice [of "''p9''" example_state example_env example_env]
      a b c d e
    by simp
qed

text \<open>
  Claim C7 as stated fails on the first call: for an identifier that is not in the
  set it returns \<open>False\<close>, and for a monitored position with an exchange that rejects
  the order it raises and the position stays in the set.
\<close>

theorem close_position_manual_first_call_counterexample:
  "get_position ''p9'' example_state = None \<and>
   snd (close_position_manual example_env ''p9'' example_state) = Ok False \<and>
   get_position ''p1'' example_state = Some 0 \<and>
   snd (close_position_manual example_env_rejecting ''p1'' example_state)
     = Raised GatewayError \<and>
   positions (fst (close_position_manual example_env_rejecting ''p1'' example_state))
     = positions example_state"
proof -
  have a: "ENABLE_TRADING example_env_rejecting"
    by (simp add: example_env_rejecting_def)
  have b: "gateway_raises example_env_rejecting (gateway_calls example_state)
             (ClosePosition (product_id (heap example_state 0)) (side (heap example_state 0))
                (size_base (heap example_state 0))) = Some GatewayError"
    by (simp add: example_env_rejecting_def)
  have c: "get_position ''p1'' example_state = Some 0"
    by (simp add: example_state_def get_position_def)
  have d: "get_position ''p9'' example_state = None"
    by (simp add: example_state_def get_position_def)
  show ?thesis
    using c d by (simp add: close_position_manual_def close_position_live_raised [OF a b])
qed

subsection \<open>The webhook\<close>

text \<open>
  The first statement of the \<open>try\<close> raises for every alert and in both modes, so no
  handler is ever reached.
\<close>

lemma webhook_always_raises: "webhook cfg alert s = (s, Raised (HTTPException 500))"
  by (simp add: webhook_def str_value_def)

text \<open>
  Claim C10. With trading disabled the webhook leaves the state (the position set, the
  objects, the file, the exchange) exactly as it was, but it does not answer with the
  paper-mode success response: the read of \<open>alert.action.value\<close> raises, and the
  endpoint answers \<open>HTTPException(500)\<close>, here for an EXIT_LONG alert on a monitored
  product.
\<close>

theorem webhook_paper_mode_raises:
  "\<not> ENABLE_TRADING example_env \<and>
   webhook example_env example_alert example_state =
     (example_state, Raised (HTTPException 500))"
  by (simp add: webhook_always_raises example_env_def)

subsection \<open>Loading the file\<close>

lemma PositionStatus_of_status_value [simp]: "PositionStatus_of (status_value st) = Ok st"
  by (cases st) (simp_all add: PositionStatus_of_def status_value_def)

lemma load_save_entry:
  assumes "fromisoformat cfg (isoformat cfg (opened_at p)) = Some (opened_at p)"
  shows "load_entry cfg (Object (save_entry cfg p)) = Ok (p\<lparr>closed_at := None, exit_reason := None\<rparr>)"
  using assms by (simp add: load_entry_def save_entry_def item_def)

lemma load_entry_NotAnObject: "load_entry cfg NotAnObject = Raised TypeError"
  by (simp add: load_entry_def)

lemma example_env_iso: "fromisoformat example_env (isoformat example_env t) = Some t"
  by (simp add: example_env_def)

lemma new_object_simps [simp]:
  "fst (new_object p s) = next_ref s"
  "positions (snd (new_object p s)) = positions s"
  "heap (snd (new_object p s)) = (heap s)(next_ref s := p)"
  "next_ref (snd (new_object p s)) = Suc (next_ref s)"
  "positions_file (snd (new_object p s)) = positions_file s"
  by (simp_all add: new_object_def)

lemma load_entries_Cons_Raised:
  "load_entry cfg e = Raised err \<Longrightarrow> load_entries cfg ((key, e) # rest) s = (s, Raised err)"
  by simp

lemma load_entries_Cons_Ok:
  "load_entry cfg e = Ok p \<Longrightarrow>
   load_entries cfg ((key, e) # rest) s =
     load_entries cfg rest
       ((snd (new_object p s))\<lparr>positions := dict_set key (next_ref s) (positions s)\<rparr>)"
  by (simp add: new_object_def)

lemma loads_Ok: "load_entry cfg e = Ok p \<Longrightarrow> loads cfg (key, e)"
  by (simp add: loads_def)

lemma loads_Raised: "load_entry cfg e = Raised err \<Longrightarrow> \<not> loads cfg (key, e)"
  by (simp add: loads_def)

lemma load_entries_keys:
  assumes "distinct (map fst data)" and "fst ` set (positions s) \<inter> fst ` set data = {}"
  shows "map fst (positions (fst (load_entries cfg data s))) =
           map fst (positions s) @ map fst (takeWhile (loads cfg) data) \<and>
         (snd (load_entries cfg data s) = Ok ()) = list_all (loads cfg) data"
  using assms
proof (induction data arbitrary: s)
  case Nil
  then show ?case by simp
next
  case (Cons ke rest)
  obtain key e where ke: "ke = (key, e)" by (cases ke)
  show ?case
  proof (cases "load_entry cfg e")
    case (Raised err)
    then show ?thesis
      using loads_Raised [OF Raised, of key] by (simp add: ke)
  next
    case (Ok p)
    let ?s1 = "(snd (new_object p s))\<lparr>positions := dict_set key (next_ref s) (positions s)\<rparr>"
    have absent: "dict_get (positions s) key = None"
      using Cons.prems(2) by (auto simp: ke dict_get_None_iff)
    have pos: "positions ?s1 = positions s @ [(key, next_ref s)]"
      by (simp add: dict_set_absent [OF absent])
    have d: "distinct (map fst rest)" using Cons.prems(1) by simp
    have disj: "fst ` set (positions ?s1) \<inter> fst ` set rest = {}"
      using Cons.prems by (auto simp: pos ke)
    from Cons.IH [OF d disj] show ?thesis
      using loads_Ok [OF Ok, of key]
      by (simp add: ke load_entries_Cons_Ok [OF Ok] pos del: load_entries.simps)
  qed
qed

text \<open>
  Claim C9, as amended. Starting the manager never raises. When the load fails on a
  file that is unreadable, not JSON or not a mapping, the position set is empty. When
  it fails on a mapping (with unique keys, as a parsed JSON object has), some entry
  does not load, and the set holds exactly the identifiers of the entries before the
  first such entry: it is empty only when the first entry is the invalid one.
\<close>

theorem init_manager_failed_load:
  assumes "snd (init_manager cfg s) = FailedToLoad"
  shows "(positions_file s = Unreadable \<or> positions_file s = NotJSON \<or>
          positions_file s = NotAMapping \<longrightarrow>
            positions (fst (init_manager cfg s)) = []) \<and>
         (\<forall>data. positions_file s = Mapping data \<and> distinct (map fst data) \<longrightarrow>
            \<not> list_all (loads cfg) data \<and>
            map fst (positions (fst (init_manager cfg s))) =
              map fst (takeWhile (loads cfg) data))"
proof -
  have "positions (fst (init_manager cfg s)) = []"
    if "positions_file s = Unreadable \<or> positions_file s = NotJSON \<or>
        positions_file s = NotAMapping"
    using that by (auto simp: init_manager_def load_positions_def)
  moreover have "\<not> list_all (loads cfg) data \<and>
      map fst (positions (fst (init_manager cfg s))) = map fst (takeWhile (loads cfg) data)"
    if m: "positions_file s = Mapping data" and d: "distinct (map fst data)" for data
  proof -
    let ?s0 = "s\<lparr>positions := []\<rparr>"
    have disj: "fst ` set (positions ?s0) \<inter> fst ` set data = {}" by simp
    note k = load_entries_keys [OF d disj, of cfg]
    obtain s1 r where lr: "load_entries cfg data ?s0 = (s1, r)"
      by (cases "load_entries cfg data ?s0")
    have im: "init_manager cfg s =
        (s1, case r of Raised err \<Rightarrow> FailedToLoad | Ok u \<Rightarrow> Loaded)"
      by (simp add: init_manager_def load_positions_def m lr split: result.splits)
    from assms im have "r \<noteq> Ok ()" by (auto split: result.splits)
    with k lr im show ?thesis by simp
  qed
  ultimately show ?thesis by blast
qed

text \<open>A concrete instance.\<close>

theorem init_manager_failed_load_witness:
  "snd (init_manager example_env (example_state\<lparr>positions_file := NotJSON\<rparr>)) = FailedToLoad \<and>
   positions (fst (init_manager example_env (example_state\<lparr>positions_file := NotJSON\<rparr>))) = []"
proof -
  have a: "snd (init_manager example_env (example_state\<lparr>positions_file := NotJSON\<rparr>)) = FailedToLoad"
    by (simp add: init_manager_def load_positions_def)
  show ?thesis
    using init_manager_failed_load [OF a] a by simp
qed

text \<open>
  Claim C9 as stated fails: on a file whose first entry is valid and whose second entry
  is not an object the load fails, and the manager starts with the first position.
\<close>

theorem init_manager_partial_counterexample:
  "snd (init_manager example_env (example_state\<lparr>positions_file := example_file_partial\<rparr>))
     = FailedToLoad \<and>
   positions (fst (init_manager example_env
                (example_state\<lparr>positions_file := example_file_partial\<rparr>))) = [(''p1'', 2)]"
proof -
  have a: "load_entry example_env (Object (save_entry example_env example_long)) =
             Ok (example_long\<lparr>closed_at := None, exit_reason := None\<rparr>)"
    by (rule load_save_entry) (rule example_env_iso)
  show ?thesis
    by (simp add: init_manager_def load_positions_def example_file_partial_def
          load_entries_Cons_Ok [OF a] load_entries_Cons_Raised [OF load_entry_NotAnObject]
          example_state_def del: load_entries.simps)
qed

subsection \<open>The position set holds open positions\<close>

text \<open>
  The invariant holds of the empty dict of \<open>__init__\<close>, and every operation of the
  manager keeps it: saving, closing (by a check, by hand, whether the exchange accepts
  or not), checking, price updates, the entry handlers, and starting again from a file
  that the manager saved.
\<close>

lemma manager_inv_empty: "manager_inv (s\<lparr>positions := []\<rparr>)"
  by (simp add: manager_inv_def)

lemma set_dict_pop_subset: "set (dict_pop k d) \<subseteq> set d"
  by (induction d) auto

lemma distinct_map_dict_pop: "distinct (map f d) \<Longrightarrow> distinct (map f (dict_pop k d))"
proof (induction d)
  case Nil
  then show ?case by simp
next
  case (Cons e d)
  have "f ` set (dict_pop k d) \<subseteq> f ` set d" using set_dict_pop_subset by fast
  with Cons show ?case by auto
qed

lemma dict_pop_key_gone:
  "distinct (map fst d) \<Longrightarrow> kr \<in> set (dict_pop k d) \<Longrightarrow> fst kr \<noteq> k"
proof (induction d)
  case Nil
  then show ?case by simp
next
  case (Cons e d)
  show ?case
  proof (cases "fst e = k")
    case True
    with Cons.prems have "kr \<in> set d" and "k \<notin> fst ` set d" by auto
    then show ?thesis by force
  next
    case False
    with Cons show ?thesis by auto
  qed
qed

lemma set_dict_set_subset: "set (dict_set k v d) \<subseteq> insert (k, v) (set d)"
  by (induction d) auto

lemma map_fst_dict_set:
  "map fst (dict_set k v d) = (if k \<in> fst ` set d then map fst d else map fst d @ [k])"
  by (induction d) auto

lemma distinct_fst_dict_set: "distinct (map fst d) \<Longrightarrow> distinct (map fst (dict_set k v d))"
  by (simp add: map_fst_dict_set)

lemma distinct_snd_dict_set:
  "distinct (map snd d) \<Longrightarrow> v \<notin> snd ` set d \<Longrightarrow> distinct (map snd (dict_set k v d))"
proof (induction d)
  case Nil
  then show ?case by simp
next
  case (Cons e d)
  have "snd ` set (dict_set k v d) \<subseteq> insert v (snd ` set d)"
    using set_dict_set_subset [of k v d] by force
  with Cons show ?case by auto
qed

lemma manager_inv_save_positions [simp]: "manager_inv (save_positions cfg s) = manager_inv s"
  by (simp add: manager_inv_def)

lemma manager_inv_gateway_calls [simp]: "manager_inv (s\<lparr>gateway_calls := g\<rparr>) = manager_inv s"
  by (simp add: manager_inv_def)

lemma manager_inv_clock [simp]: "manager_inv (s\<lparr>clock := c\<rparr>) = manager_inv s"
  by (simp add: manager_inv_def)

lemma manager_inv_heap_update:
  assumes "manager_inv s"
    and "position_id p = position_id (heap s r)"
    and "closed_at p = closed_at (heap s r)"
    and "exit_reason p = exit_reason (heap s r)"
  shows "manager_inv (s\<lparr>heap := (heap s)(r := p)\<rparr>)"
  using assms by (auto simp: manager_inv_def)

lemma manager_inv_insert:
  assumes "manager_inv s" and "closed_at p = None" and "exit_reason p = None"
  shows "manager_inv ((snd (new_object p s))
           \<lparr>positions := dict_set (position_id p) (next_ref s) (positions s)\<rparr>)"
proof -
  have fresh: "next_ref s \<notin> snd ` set (positions s)"
    using assms(1) by (auto simp: manager_inv_def)
  have sub: "set (dict_set (position_id p) (next_ref s) (positions s))
               \<subseteq> insert (position_id p, next_ref s) (set (positions s))"
    by (rule set_dict_set_subset)
  show ?thesis
    unfolding manager_inv_def
  proof (intro conjI ballI)
    show "distinct (map fst (positions ((snd (new_object p s))
           \<lparr>positions := dict_set (position_id p) (next_ref s) (positions s)\<rparr>)))"
      using assms(1) by (simp add: manager_inv_def distinct_fst_dict_set)
    show "distinct (map snd (positions ((snd (new_object p s))
           \<lparr>positions := dict_set (position_id p) (next_ref s) (positions s)\<rparr>)))"
      using assms(1) fresh by (simp add: manager_inv_def distinct_snd_dict_set)
  next
    fix kr
    assume "kr \<in> set (positions ((snd (new_object p s))
           \<lparr>positions := dict_set (position_id p) (next_ref s) (positions s)\<rparr>))"
    then have kr: "kr = (position_id p, next_ref s) \<or> kr \<in> set (positions s)"
      using sub by auto
    let ?s1 = "(snd (new_object p s))
           \<lparr>positions := dict_set (position_id p) (next_ref s) (positions s)\<rparr>"
    from kr assms show "snd kr < next_ref ?s1"
      by (auto simp: manager_inv_def less_Suc_eq)
    from kr assms fresh show "position_id (heap ?s1 (snd kr)) = fst kr"
      by (auto simp: manager_inv_def)
    from kr assms fresh show "closed_at (heap ?s1 (snd kr)) = None"
      by (auto simp: manager_inv_def)
    from kr assms fresh show "exit_reason (heap ?s1 (snd kr)) = None"
      by (auto simp: manager_inv_def)
  qed
qed

lemma manager_inv_closed_state:
  assumes "manager_inv s"
  shows "manager_inv (closed_state cfg position reason s)"
proof -
  let ?pid = "position_id (heap s position)"
  let ?s' = "closed_state cfg position reason s"
  have pos: "positions ?s' = dict_pop ?pid (positions s)"
    by (simp add: closed_state_simps)
  have nr: "next_ref ?s' = next_ref s"
    by (simp add: closed_state_def)
  have hp: "heap ?s' = (heap s)(position := (heap s position)
        \<lparr>status := CLOSED, exit_reason := Some reason, closed_at := Some (utcnow cfg (clock s))\<rparr>)"
    by (simp add: closed_state_simps)
  have d: "distinct (map fst (positions s))" "distinct (map snd (positions s))"
    using assms by (simp_all add: manager_inv_def)
  have other: "snd kr \<noteq> position" if "kr \<in> set (dict_pop ?pid (positions s))" for kr
  proof
    assume eq: "snd kr = position"
    have "kr \<in> set (positions s)" using that set_dict_pop_subset by fast
    with assms eq have "fst kr = ?pid" by (auto simp: manager_inv_def)
    with dict_pop_key_gone [OF d(1) that] show False by simp
  qed
  show ?thesis
    unfolding manager_inv_def pos nr hp
  proof (intro conjI ballI)
    show "distinct (map fst (dict_pop ?pid (positions s)))"
      by (rule distinct_map_dict_pop) (rule d)
    show "distinct (map snd (dict_pop ?pid (positions s)))"
      by (rule distinct_map_dict_pop) (rule d)
  next
    fix kr assume m: "kr \<in> set (dict_pop ?pid (positions s))"
    then have old: "kr \<in> set (positions s)" using set_dict_pop_subset by fast
    note o = other [OF m]
    from old assms show "snd kr < next_ref s" by (auto simp: manager_inv_def)
    from old assms o show "position_id (((heap s)(position := (heap s position)
        \<lparr>status := CLOSED, exit_reason := Some reason,
         closed_at := Some (utcnow cfg (clock s))\<rparr>)) (snd kr)) = fst kr"
      by (auto simp: manager_inv_def)
    from old assms o show "closed_at (((heap s)(position := (heap s position)
        \<lparr>status := CLOSED, exit_reason := Some reason,
         closed_at := Some (utcnow cfg (clock s))\<rparr>)) (snd kr)) = None"
      by (auto simp: manager_inv_def)
    from old assms o show "exit_reason (((heap s)(position := (heap s position)
        \<lparr>status := CLOSED, exit_reason := Some reason,
         closed_at := Some (utcnow cfg (clock s))\<rparr>)) (snd kr)) = None"
      by (auto simp: manager_inv_def)
  qed
qed

lemma manager_inv_close_position:
  assumes "manager_inv s"
  shows "manager_inv (fst (close_position cfg position reason s))"
proof (cases "ENABLE_TRADING cfg")
  case False
  then show ?thesis by (simp add: close_position_paper manager_inv_closed_state assms)
next
  case True
  show ?thesis
  proof (cases "gateway_raises cfg (gateway_calls s)
     (ClosePosition (product_id (heap s position)) (side (heap s position))
        (size_base (heap s position)))")
    case None
    have "manager_inv (s\<lparr>gateway_calls := gateway_calls s @
             [ClosePosition (product_id (heap s position)) (side (heap s position))
                (size_base (heap s position))]\<rparr>)"
      using assms by simp
    then show ?thesis
      by (simp add: close_position_live_ok [OF True None] manager_inv_closed_state)
  next
    case (Some err)
    then show ?thesis by (simp add: close_position_live_raised [OF True Some] assms)
  qed
qed

lemma manager_inv_close_position_manual:
  assumes "manager_inv s"
  shows "manager_inv (fst (close_position_manual cfg pid s))"
proof (cases "get_position pid s")
  case None
  then show ?thesis by (simp add: close_position_manual_def assms)
next
  case (Some position)
  obtain s1 r where c: "close_position cfg position MANUAL s = (s1, r)"
    by (cases "close_position cfg position MANUAL s")
  have "manager_inv (fst (close_position cfg position MANUAL s))"
    by (rule manager_inv_close_position) (rule assms)
  then have "manager_inv s1" by (simp add: c)
  then show ?thesis
    by (cases r) (simp_all add: close_position_manual_def Some c)
qed

lemma update_pnl_identity:
  "position_id (fst (update_pnl p)) = position_id p"
  "closed_at (fst (update_pnl p)) = closed_at p"
  "exit_reason (fst (update_pnl p)) = exit_reason p"
  by (simp_all add: update_pnl_def Let_def)

lemma activate_trailing_identity:
  "position_id (activate_trailing p) = position_id p"
  "closed_at (activate_trailing p) = closed_at p"
  "exit_reason (activate_trailing p) = exit_reason p"
  by (simp_all add: activate_trailing_def Let_def)

lemma update_trailing_stop_identity:
  "position_id (update_trailing_stop p) = position_id p"
  "closed_at (update_trailing_stop p) = closed_at p"
  "exit_reason (update_trailing_stop p) = exit_reason p"
  by (simp_all add: update_trailing_stop_def Let_def)

lemma manager_inv_check_trailing:
  assumes "manager_inv s"
  shows "manager_inv (check_trailing cfg position s)"
proof -
  let ?s2 = "if \<not> trailing_active (heap s position) \<and> should_activate_trailing (heap s position)
             then save_positions cfg
                    (s\<lparr>heap := (heap s)(position := activate_trailing (heap s position))\<rparr>)
             else s"
  have s2: "manager_inv ?s2"
    using assms by (simp add: manager_inv_heap_update activate_trailing_identity)
  have s2a: "manager_inv (?s2\<lparr>heap := (heap ?s2)(position :=
                 update_trailing_stop (heap ?s2 position))\<rparr>)"
    by (rule manager_inv_heap_update [OF s2]) (rule update_trailing_stop_identity)+
  have "check_trailing cfg position s =
     (if trailing_active (heap ?s2 position)
      then (let s2a = ?s2\<lparr>heap := (heap ?s2)(position :=
                          update_trailing_stop (heap ?s2 position))\<rparr>
            in if trailing_stop_price (heap s2a position) \<noteq> trailing_stop_price (heap ?s2 position)
               then save_positions cfg s2a else s2a)
      else ?s2)"
    by (simp add: check_trailing_def Let_def)
  with s2 s2a show ?thesis by (simp add: Let_def)
qed

lemma manager_inv_check_position:
  assumes "manager_inv s"
  shows "manager_inv (fst (check_position cfg position s))"
proof -
  let ?s1 = "s\<lparr>heap := (heap s)(position := fst (update_pnl (heap s position)))\<rparr>"
  have s1: "manager_inv ?s1"
    by (rule manager_inv_heap_update [OF assms]) (rule update_pnl_identity)+
  show ?thesis
  proof (cases "entry_price (heap s position) = 0")
    case True
    obtain p1 where p1: "update_pnl (heap s position) = (p1, Raised ZeroDivisionError)"
      using update_pnl_Raised [OF True] by (cases "update_pnl (heap s position)") auto
    from s1 show ?thesis by (simp add: check_position_def p1)
  next
    case False
    have s3: "manager_inv (check_trailing cfg position ?s1)"
      by (rule manager_inv_check_trailing) (rule s1)
    show ?thesis
      by (simp add: check_position_Ok [OF False] Let_def s3 manager_inv_close_position
            split: option.splits)
  qed
qed

lemma manager_inv_on_price_update_loop:
  "manager_inv s \<Longrightarrow> manager_inv (on_price_update_loop product price refs s)"
proof (induction refs arbitrary: s)
  case Nil
  then show ?case by simp
next
  case (Cons r refs)
  have "manager_inv (s\<lparr>heap := (heap s)(r := (heap s r)\<lparr>current_price := price\<rparr>)\<rparr>)"
    by (rule manager_inv_heap_update [OF Cons.prems]) simp_all
  with Cons show ?case by simp
qed

lemma manager_inv_on_price_update:
  "manager_inv s \<Longrightarrow> manager_inv (on_price_update product price s)"
  by (simp add: on_price_update_def manager_inv_on_price_update_loop)

lemma manager_inv_add_new_object:
  assumes "manager_inv s" and "closed_at p = None" and "exit_reason p = None"
  shows "manager_inv (add_position cfg (fst (new_object p s)) (snd (new_object p s)))"
  using manager_inv_insert [OF assms] by (simp add: add_position_def)

lemma manager_inv_open_position:
  assumes "manager_inv s"
  shows "manager_inv (fst (open_position cfg alert sd dir fill_price s))"
proof -
  have a: "manager_inv (s\<lparr>clock := Suc (Suc (clock s))\<rparr>)" using assms by simp
  show ?thesis
    using assms manager_inv_add_new_object [OF a]
    by (simp add: open_position_def Let_def gateway_def split_def
          split: option.splits result.splits)
qed

lemma manager_inv_handle_long_entry:
  "manager_inv s \<Longrightarrow> manager_inv (fst (handle_long_entry cfg alert s))"
  by (simp add: handle_long_entry_def gateway_def get_current_price_def Let_def
        manager_inv_open_position split: option.splits)

lemma manager_inv_handle_short_entry:
  "manager_inv s \<Longrightarrow> manager_inv (fst (handle_short_entry cfg alert s))"
  by (simp add: handle_short_entry_def gateway_def get_current_price_def Let_def
        manager_inv_open_position split: option.splits)

lemma manager_inv_load_saved:
  assumes iso: "\<forall>t. fromisoformat cfg (isoformat cfg t) = Some t"
    and "manager_inv s"
    and "distinct (map fst ps)"
    and "fst ` set (positions s) \<inter> fst ` set ps = {}"
    and "\<forall>kr \<in> set ps. position_id (h (snd kr)) = fst kr"
  shows "manager_inv (fst (load_entries cfg
           (map (\<lambda>(key, pos). (key, Object (save_entry cfg (h pos)))) ps) s))"
  using assms(2-)
proof (induction ps arbitrary: s)
  case Nil
  then show ?case by simp
next
  case (Cons kp rest)
  obtain key pos where kp: "kp = (key, pos)" by (cases kp)
  let ?p = "(h pos)\<lparr>closed_at := None, exit_reason := None\<rparr>"
  have le: "load_entry cfg (Object (save_entry cfg (h pos))) = Ok ?p"
    by (rule load_save_entry) (simp add: iso)
  have pid: "position_id ?p = key" using Cons.prems(4) by (simp add: kp)
  let ?s1 = "(snd (new_object ?p s))\<lparr>positions := dict_set key (next_ref s) (positions s)\<rparr>"
  have inv1: "manager_inv ?s1"
    using manager_inv_insert [OF Cons.prems(1), of ?p] by (simp add: pid)
  have sub: "set (positions ?s1) \<subseteq> insert (key, next_ref s) (set (positions s))"
    using set_dict_set_subset [of key "next_ref s" "positions s"] by simp
  have d: "distinct (map fst rest)" using Cons.prems(2) by simp
  have disj: "fst ` set (positions ?s1) \<inter> fst ` set rest = {}"
  proof -
    have "key \<notin> fst ` set rest" using Cons.prems(2) by (auto simp: kp)
    moreover have "fst ` set (positions s) \<inter> fst ` set rest = {}"
      using Cons.prems(3) by auto
    moreover have "fst ` set (positions ?s1) \<subseteq> insert key (fst ` set (positions s))"
      using sub by force
    ultimately show ?thesis by blast
  qed
  have ids: "\<forall>kr \<in> set rest. position_id (h (snd kr)) = fst kr"
    using Cons.prems(4) by simp
  from Cons.IH [OF inv1 d disj ids] show ?case
    by (simp add: kp load_entries_Cons_Ok [OF le] del: load_entries.simps)
qed

lemma manager_inv_init_manager_saved:
  assumes "manager_inv s" and "file_writable cfg"
    and "\<forall>t. fromisoformat cfg (isoformat cfg t) = Some t"
  shows "manager_inv (fst (init_manager cfg (save_positions cfg s)))"
proof -
  let ?s0 = "(save_positions cfg s)\<lparr>positions := []\<rparr>"
  have fl: "positions_file ?s0 = Mapping (saved_data cfg s)"
    using assms(2) by (simp add: positions_file_save_positions)
  have inv0: "manager_inv ?s0" by (rule manager_inv_empty)
  have d: "distinct (map fst (positions s))" using assms(1) by (simp add: manager_inv_def)
  have disj: "fst ` set (positions ?s0) \<inter> fst ` set (positions s) = {}" by simp
  have ids: "\<forall>kr \<in> set (positions s). position_id (heap s (snd kr)) = fst kr"
    using assms(1) by (simp add: manager_inv_def)
  note l = manager_inv_load_saved [OF assms(3) inv0 d disj ids]
  obtain s1 r where lr: "load_entries cfg (saved_data cfg s) ?s0 = (s1, r)"
    by (cases "load_entries cfg (saved_data cfg s) ?s0")
  from l lr have "manager_inv s1" by (simp add: saved_data_def)
  then show ?thesis
    by (cases r) (simp_all add: init_manager_def load_positions_def fl lr)
qed

lemma manager_inv_open:
  "manager_inv s \<Longrightarrow>
   distinct (map fst (positions s)) \<and>
   (\<forall>kp \<in> set (position_set s). closed_at (snd kp) = None \<and> exit_reason (snd kp) = None)"
  by (auto simp: manager_inv_def position_set_def)

subsection \<open>The round trip through the file\<close>

lemma position_set_simps [simp]:
  "position_set (s\<lparr>positions := []\<rparr>) = []"
  by (simp add: position_set_def)





end
